theory Spec2Isabelle
  imports Complex_Main "HOL-Library.Char_ord" "HOL-Library.List_Lexorder"
    "HOL-Library.Product_Lexorder"
begin

section \<open>Values, errors and tables\<close>

text \<open>
  The script \<^verbatim>\<open>uday.py\<close> is a chain of calls into pandas, numpy, scipy and
  scikit-learn. Numbers are modelled as reals (rounding is abstracted away); a cell that
  is missing or not a number (NaN) is \<open>None\<close>. An exception that ends the script is a
  value \<open>Inl e\<close> of the result type.
\<close>

datatype py_error = KeyError | ValueError | TypeError | IndexError | RuntimeError

text \<open>
  A DataFrame: the row labels, the column labels and the cells, one list per row.
\<close>

record ('r, 'c) frame =
  index :: "'r list"
  columns :: "'c list"
  cells :: "real option list list"

section \<open>Growth estimator: the confidence margin\<close>

text \<open>
  \<^verbatim>\<open>def exp_growth(x, a, b): return a * np.exp(b * x)\<close>, called on the array of time
  steps.
\<close>

definition exp_growth :: "real list \<Rightarrow> real \<Rightarrow> real \<Rightarrow> real list" where
  "exp_growth x a b = map (\<lambda>t. a * exp (b * t)) x"

text \<open>
  numpy does not raise on a floating-point division by zero or on the square root of a
  negative number: it warns, and the result is inf or nan. The model gives \<open>None\<close> for
  such a result (no finite number is computed).
\<close>

definition np_divide :: "real \<Rightarrow> real \<Rightarrow> real option" where
  "np_divide a b = (if b = 0 then None else Some (a / b))"

definition np_sqrt :: "real \<Rightarrow> real option" where
  "np_sqrt a = (if a < 0 then None else Some (sqrt a))"

text \<open>\<^verbatim>\<open>np.diag(pcov)\<close>: the main diagonal of a two-dimensional array.\<close>

definition diag :: "real list list \<Rightarrow> real list" where
  "diag m =
     map (\<lambda>i. m ! i ! i) [0..<min (length m) (case m of [] \<Rightarrow> 0 | r # _ \<Rightarrow> length r)]"

text \<open>
  Line 234, \<^verbatim>\<open>stdev = np.sqrt(np.sum(residuals**2) / df)\<close>: the quotient is not a
  number when \<open>df = 0\<close>.
\<close>

definition residual_stdev :: "real list \<Rightarrow> int \<Rightarrow> real option" where
  "residual_stdev residuals df =
     (case np_divide (sum_list (map (\<lambda>r. r\<^sup>2) residuals)) (real_of_int df) of
        None \<Rightarrow> None
      | Some q \<Rightarrow> np_sqrt q)"

text \<open>
  \<^verbatim>\<open>err_ranges(xdata, ydata, popt, pcov, alpha=0.05)\<close>. The quantile function
  \<^verbatim>\<open>stats.t.ppf\<close> of the Student t-distribution belongs to scipy and is the
  parameter \<open>tppf\<close> (first argument the probability, second the degrees of freedom).
  \<^verbatim>\<open>exp_growth(xdata, *popt)\<close> is a TypeError unless \<open>popt\<close> has two entries, and
  the subtraction from \<open>ydata\<close> (a pandas Series) is a ValueError unless the lengths
  agree. An entry of the result is \<open>None\<close> where numpy yields nan.
\<close>

definition err_ranges ::
  "(real \<Rightarrow> int \<Rightarrow> real) \<Rightarrow> real list \<Rightarrow> real list \<Rightarrow> real list \<Rightarrow> real list list \<Rightarrow> real
    \<Rightarrow> py_error + real option list" where
  "err_ranges tppf xdata ydata popt pcov alpha =
     (let n = int (length ydata);
          m = int (length popt);
          df = max 0 (n - m);
          tval = - 1 * tppf (alpha / 2) df
      in case popt of
           [a, b] \<Rightarrow>
             if length xdata \<noteq> length ydata then Inl ValueError
             else
               let residuals = map2 (-) ydata (exp_growth xdata a b);
                   stdev = residual_stdev residuals df
               in Inr (map (\<lambda>d. case (stdev, np_sqrt (1 + d)) of
                                  (Some s, Some r) \<Rightarrow> Some (tval * s * r)
                                | _ \<Rightarrow> None) (diag pcov))
         | _ \<Rightarrow> Inl TypeError)"

subsection \<open>The margin as the specification words it\<close>

text \<open>
  The two-sided critical value at significance \<open>alpha\<close>: the upper \<open>1 - alpha / 2\<close>
  quantile.
\<close>

definition two_sided_critical :: "(real \<Rightarrow> int \<Rightarrow> real) \<Rightarrow> real \<Rightarrow> int \<Rightarrow> real" where
  "two_sided_critical tppf alpha dof = tppf (1 - alpha / 2) dof"

text \<open>
  The half-width for one diagonal entry \<open>d\<close> of the covariance, from \<open>n\<close> observations
  and \<open>p\<close> parameters: critical value times residual standard deviation
  \<open>sqrt (sum of squared residuals / (n - p))\<close> times \<open>sqrt (1 + d)\<close>; not a number
  when \<open>n - p \<le> 0\<close> or \<open>1 + d < 0\<close>.
\<close>

definition spec_half_width ::
  "(real \<Rightarrow> int \<Rightarrow> real) \<Rightarrow> real \<Rightarrow> int \<Rightarrow> int \<Rightarrow> real list \<Rightarrow> real \<Rightarrow> real option" where
  "spec_half_width tppf alpha n p residuals d =
     (if n - p \<le> 0 \<or> 1 + d < 0 then None
      else Some (two_sided_critical tppf alpha (n - p)
                 * sqrt (sum_list (map (\<lambda>r. r\<^sup>2) residuals) / real_of_int (n - p))
                 * sqrt (1 + d)))"

section \<open>Loader\<close>

text \<open>
  What \<^verbatim>\<open>pd.read_csv(filename, skiprows=4)\<close> hands to the script: the columns in
  file order, each with its header label and its cells. A cell is the field's text, or
  \<open>None\<close> for an empty field (NaN). Reading belongs to pandas and the file system, so
  \<open>read_csv\<close> is a parameter of the model; so is \<^verbatim>\<open>pd.to_numeric\<close> on one
  text, \<open>to_num\<close>, which gives \<open>None\<close> where \<^verbatim>\<open>errors='coerce'\<close> gives NaN.
\<close>

type_synonym csv_frame = "(string \<times> string option list) list"

type_synonym melted_row = "string option \<times> string option \<times> string \<times> string option"

type_synonym long_row = "string option \<times> string option \<times> real option \<times> real option"

text \<open>\<^verbatim>\<open>df.drop(cols, axis=1)\<close>: a KeyError when a label is not a column.\<close>

definition drop_columns :: "csv_frame \<Rightarrow> string list \<Rightarrow> py_error + csv_frame" where
  "drop_columns df labels =
     (if list_all (\<lambda>l. l \<in> set (map fst df)) labels
      then Inr (filter (\<lambda>col. fst col \<notin> set labels) df)
      else Inl KeyError)"

text \<open>\<^verbatim>\<open>df.rename(columns={old: new})\<close>: a label that is absent is ignored.\<close>

definition rename_column :: "csv_frame \<Rightarrow> string \<Rightarrow> string \<Rightarrow> csv_frame" where
  "rename_column df old new = map (\<lambda>col. (if fst col = old then new else fst col, snd col)) df"

text \<open>
  \<^verbatim>\<open>df.melt(id_vars=[id1, id2], var_name='Year', value_name='Value')\<close>: one long row
  (Country, Indicator Name, Year, Value) per cell of every other column; a KeyError when
  an identifier column is absent.
\<close>

definition melt :: "csv_frame \<Rightarrow> string \<Rightarrow> string \<Rightarrow> py_error + melted_row list" where
  "melt df id1 id2 =
     (case (map_of df id1, map_of df id2) of
        (Some cs, Some ns) \<Rightarrow>
          Inr (concat (map (\<lambda>col. map (\<lambda>(c, n, v). (c, n, fst col, v)) (zip cs (zip ns (snd col))))
                          (filter (\<lambda>col. fst col \<noteq> id1 \<and> fst col \<noteq> id2) df)))
      | _ \<Rightarrow> Inl KeyError)"

text \<open>
  Lines 35 and 36: \<^verbatim>\<open>df['Year'] = pd.to_numeric(df['Year'], errors='coerce')\<close> and the
  same for \<^verbatim>\<open>'Value'\<close>.
\<close>

definition to_numeric_year :: "(string \<Rightarrow> real option) \<Rightarrow> melted_row list \<Rightarrow>
    (string option \<times> string option \<times> real option \<times> string option) list" where
  "to_numeric_year to_num rows = map (\<lambda>(c, n, y, v). (c, n, to_num y, v)) rows"

definition to_numeric_value :: "(string \<Rightarrow> real option) \<Rightarrow>
    (string option \<times> string option \<times> real option \<times> string option) list \<Rightarrow> long_row list" where
  "to_numeric_value to_num rows =
     map (\<lambda>(c, n, y, v). (c, n, y, case v of None \<Rightarrow> None | Some s \<Rightarrow> to_num s)) rows"

definition mean_opt :: "real list \<Rightarrow> real option" where
  "mean_opt vs = (if vs = [] then None else Some (sum_list vs / real (length vs)))"

text \<open>
  \<^verbatim>\<open>df.pivot_table(index=..., columns=..., values='Value')\<close> with the defaults
  (mean, dropna): the long rows are grouped by the index key and the column key, a row
  with a missing key is left out, each group's cell is the mean of its present values,
  and a group with no present value is dropped before the column key is unstacked. Row
  and column labels come out sorted.
\<close>

definition pivot_table ::
  "('a \<Rightarrow> 'r option) \<Rightarrow> ('a \<Rightarrow> 'c option) \<Rightarrow> ('a \<Rightarrow> real option) \<Rightarrow> 'a list
    \<Rightarrow> ('r :: linorder, 'c :: linorder) frame" where
  "pivot_table rk ck val rows =
     (let valid = List.map_filter
            (\<lambda>a. case (rk a, ck a, val a) of
                    (Some r, Some c, Some v) \<Rightarrow> Some (r, c, v)
                  | _ \<Rightarrow> None) rows;
          idx = sort (remdups (map fst valid));
          cols = sort (remdups (map (\<lambda>t. fst (snd t)) valid))
      in \<lparr>index = idx, columns = cols,
          cells = map (\<lambda>r. map (\<lambda>c. mean_opt (map (\<lambda>t. snd (snd t))
                                      (filter (\<lambda>t. fst t = r \<and> fst (snd t) = c) valid))) cols)
                    idx\<rparr>)"

text \<open>\<^verbatim>\<open>df.dropna(how='all', axis=1)\<close>: keeps the columns that hold a value.\<close>

definition dropna_all_columns :: "('r, 'c) frame \<Rightarrow> ('r, 'c) frame" where
  "dropna_all_columns df =
     (let keep = filter (\<lambda>j. list_ex (\<lambda>row. row ! j \<noteq> None) (cells df))
                   [0..<length (columns df)]
      in \<lparr>index = index df, columns = map (\<lambda>j. columns df ! j) keep,
          cells = map (\<lambda>row. map (\<lambda>j. row ! j) keep) (cells df)\<rparr>)"

definition country_indicator_key :: "long_row \<Rightarrow> (string \<times> string) option" where
  "country_indicator_key a =
     (case a of (Some c, Some n, _, _) \<Rightarrow> Some (c, n) | _ \<Rightarrow> None)"

definition year_indicator_key :: "long_row \<Rightarrow> (real \<times> string) option" where
  "year_indicator_key a =
     (case a of (_, Some n, Some y, _) \<Rightarrow> Some (y, n) | _ \<Rightarrow> None)"

definition file_read :: "(string \<Rightarrow> py_error + csv_frame) \<Rightarrow> (string \<Rightarrow> real option) \<Rightarrow> string
    \<Rightarrow> py_error + ((string \<times> string, real) frame \<times> (real \<times> string, string) frame)" where
  "file_read read_csv to_num filename =
     (case read_csv filename of
        Inl e \<Rightarrow> Inl e
      | Inr df0 \<Rightarrow>
     (case drop_columns df0 [''Country Code'', ''Indicator Code'', ''Unnamed: 66''] of
        Inl e \<Rightarrow> Inl e
      | Inr df1 \<Rightarrow>
     (case melt (rename_column df1 ''Country Name'' ''Country'') ''Country'' ''Indicator Name'' of
        Inl e \<Rightarrow> Inl e
      | Inr melted \<Rightarrow>
          let df = to_numeric_value to_num (to_numeric_year to_num melted);
              df_years = pivot_table country_indicator_key (\<lambda>(c, n, y, v). y)
                           (\<lambda>(c, n, y, v). v) df;
              df_countries = pivot_table year_indicator_key (\<lambda>(c, n, y, v). c)
                               (\<lambda>(c, n, y, v). v) df
          in Inr (dropna_all_columns df_years, dropna_all_columns df_countries))))"

subsection \<open>The file after its first two steps\<close>

text \<open>
  The frame \<^verbatim>\<open>file_read\<close> melts after lines 25 and 28, and
  \<^verbatim>\<open>filter_Cereal_yield_data\<close> masks after lines 194 and 197: the file's columns
  without the three dropped ones, \<^verbatim>\<open>Country Name\<close> renamed. Its year columns are
  all but the two identifier columns.
\<close>

definition loaded :: "csv_frame \<Rightarrow> csv_frame" where
  "loaded csv =
     rename_column
       (filter (\<lambda>col. fst col \<notin> set [''Country Code'', ''Indicator Code'', ''Unnamed: 66'']) csv)
       ''Country Name'' ''Country''"

definition year_columns :: "csv_frame \<Rightarrow> csv_frame" where
  "year_columns csv =
     filter (\<lambda>col. fst col \<noteq> ''Country'' \<and> fst col \<noteq> ''Indicator Name'') (loaded csv)"

subsection \<open>The loader's postcondition, in the words of the specification\<close>

text \<open>A cell that holds a number.\<close>

definition numeric_cell :: "(string \<Rightarrow> real option) \<Rightarrow> string option \<Rightarrow> bool" where
  "numeric_cell to_num cell = (case cell of None \<Rightarrow> False | Some s \<Rightarrow> to_num s \<noteq> None)"

text \<open>
  Row \<open>k\<close> of the file is not entirely missing: it holds a number in a column whose
  label is a year.
\<close>

definition has_value :: "(string \<Rightarrow> real option) \<Rightarrow> csv_frame \<Rightarrow> nat \<Rightarrow> bool" where
  "has_value to_num csv k =
     list_ex (\<lambda>col. to_num (fst col) \<noteq> None \<and> k < length (snd col)
                    \<and> numeric_cell to_num (snd col ! k))
       (year_columns csv)"

text \<open>No column of the frame is entirely missing.\<close>

definition no_empty_column :: "('r, 'c) frame \<Rightarrow> bool" where
  "no_empty_column df =
     list_all (\<lambda>j. list_ex (\<lambda>row. row ! j \<noteq> None) (cells df)) [0..<length (columns df)]"

section \<open>Subsetter\<close>

text \<open>Python's \<^verbatim>\<open>range(a, b)\<close>: from \<open>a\<close> up to \<open>b - 1\<close>.\<close>

definition py_range :: "int \<Rightarrow> int \<Rightarrow> int list" where
  "py_range a b = [a..b - 1]"

text \<open>The distinct entries of a list of requested labels, in order of first occurrence.\<close>

definition unique :: "'a list \<Rightarrow> 'a list" where
  "unique xs = rev (remdups (rev xs))"

definition row_of :: "('r, 'c) frame \<Rightarrow> 'r \<Rightarrow> real option list" where
  "row_of df k = (case map_of (zip (index df) (cells df)) k of Some row \<Rightarrow> row | None \<Rightarrow> [])"

definition cell_of :: "'c list \<Rightarrow> real option list \<Rightarrow> 'c \<Rightarrow> real option" where
  "cell_of cols row c = (case map_of (zip cols row) c of Some v \<Rightarrow> v | None \<Rightarrow> None)"

text \<open>
  \<^verbatim>\<open>df.loc[(countries, indicators), years]\<close> on a table whose rows are labelled by
  (country, indicator) pairs. The lookup is by label (pandas 2): a KeyError when a
  requested year is not a column, when a requested country labels no row, or when a
  requested indicator labels no row. Otherwise the rows are those whose country and
  indicator are both requested, in the order of the request, and the columns are the
  requested years.
\<close>

definition loc_rows_columns ::
  "('a \<times> 'b, 'c) frame \<Rightarrow> 'a list \<Rightarrow> 'b list \<Rightarrow> 'c list \<Rightarrow> py_error + ('a \<times> 'b, 'c) frame" where
  "loc_rows_columns df countries indicators years =
     (if \<not> list_all (\<lambda>y. y \<in> set (columns df)) years then Inl KeyError
      else if \<not> list_all (\<lambda>c. c \<in> set (map fst (index df))) countries then Inl KeyError
      else if \<not> list_all (\<lambda>n. n \<in> set (map snd (index df))) indicators then Inl KeyError
      else
        let keys = filter (\<lambda>k. k \<in> set (index df))
                     (concat (map (\<lambda>c. map (\<lambda>n. (c, n)) (unique indicators)) (unique countries)))
        in Inr \<lparr>index = keys, columns = years,
                cells = map (\<lambda>k. map (cell_of (columns df) (row_of df k)) years) keys\<rparr>)"

text \<open>\<^verbatim>\<open>df.transpose()\<close>.\<close>

definition transpose_frame :: "('r, 'c) frame \<Rightarrow> ('c, 'r) frame" where
  "transpose_frame df =
     \<lparr>index = columns df, columns = index df,
      cells = map (\<lambda>j. map (\<lambda>row. row ! j) (cells df)) [0..<length (columns df)]\<rparr>"

definition subset_data ::
  "(string \<times> string, real) frame \<Rightarrow> string list \<Rightarrow> string list
    \<Rightarrow> py_error + (real, string \<times> string) frame" where
  "subset_data df_years countries indicators =
     (let years = map real_of_int (py_range 1991 2019)
      in case loc_rows_columns df_years countries indicators years of
           Inl e \<Rightarrow> Inl e
         | Inr df \<Rightarrow> Inr (transpose_frame df))"

text \<open>
  \<^verbatim>\<open>df[df['Country'].isin(countries) & df['Indicator Name'].isin(indicators)]\<close>: a
  boolean mask over the rows; a KeyError only when one of the two columns is absent.
\<close>

definition isin :: "string option \<Rightarrow> string list \<Rightarrow> bool" where
  "isin cell labels = (case cell of None \<Rightarrow> False | Some s \<Rightarrow> s \<in> set labels)"

definition filter_isin :: "csv_frame \<Rightarrow> string list \<Rightarrow> string list \<Rightarrow> py_error + csv_frame" where
  "filter_isin df countries indicators =
     (case (map_of df ''Country'', map_of df ''Indicator Name'') of
        (Some cs, Some ns) \<Rightarrow>
          let mask = map (\<lambda>(c, n). isin c countries \<and> isin n indicators) (zip cs ns)
          in Inr (map (\<lambda>col. (fst col, map fst (filter snd (zip (snd col) mask)))) df)
      | _ \<Rightarrow> Inl KeyError)"

text \<open>
  \<^verbatim>\<open>df.loc[:, start_year:end_year]\<close>: a label slice of the sorted columns, both ends
  included.
\<close>

definition loc_column_slice :: "('r, real) frame \<Rightarrow> real \<Rightarrow> real \<Rightarrow> ('r, real) frame" where
  "loc_column_slice df lo hi =
     (let keep = filter (\<lambda>j. lo \<le> columns df ! j \<and> columns df ! j \<le> hi)
                   [0..<length (columns df)]
      in \<lparr>index = index df, columns = map (\<lambda>j. columns df ! j) keep,
          cells = map (\<lambda>row. map (\<lambda>j. row ! j) keep) (cells df)\<rparr>)"

definition filter_Cereal_yield_data ::
  "(string \<Rightarrow> py_error + csv_frame) \<Rightarrow> (string \<Rightarrow> real option) \<Rightarrow> string \<Rightarrow> string list
    \<Rightarrow> string list \<Rightarrow> int \<Rightarrow> int \<Rightarrow> py_error + (string \<times> string, real) frame" where
  "filter_Cereal_yield_data read_csv to_num filename countries indicators start_year end_year =
     (case read_csv filename of
        Inl e \<Rightarrow> Inl e
      | Inr df0 \<Rightarrow>
     (case drop_columns df0 [''Country Code'', ''Indicator Code'', ''Unnamed: 66''] of
        Inl e \<Rightarrow> Inl e
      | Inr df1 \<Rightarrow>
     (case filter_isin (rename_column df1 ''Country Name'' ''Country'') countries indicators of
        Inl e \<Rightarrow> Inl e
      | Inr df2 \<Rightarrow>
     (case melt df2 ''Country'' ''Indicator Name'' of
        Inl e \<Rightarrow> Inl e
      | Inr melted \<Rightarrow>
          let df = to_numeric_value to_num (to_numeric_year to_num melted);
              pivoted = pivot_table country_indicator_key (\<lambda>(c, n, y, v). y)
                          (\<lambda>(c, n, y, v). v) df
          in Inr (loc_column_slice pivoted (real_of_int start_year) (real_of_int end_year))))))"

section \<open>Correlation heatmap\<close>

definition present :: "real option list \<Rightarrow> real list" where
  "present col = List.map_filter (\<lambda>v. v) col"

definition column_of :: "('r, 'c) frame \<Rightarrow> nat \<Rightarrow> real option list" where
  "column_of df j = map (\<lambda>row. row ! j) (cells df)"

definition mean :: "real list \<Rightarrow> real" where
  "mean vs = sum_list vs / real (length vs)"

text \<open>
  One entry of \<^verbatim>\<open>df.corr()\<close>: the Pearson coefficient of two columns over the rows
  where both hold a value; NaN when there is no such row or when the divisor is zero.
\<close>

definition pearson :: "real option list \<Rightarrow> real option list \<Rightarrow> real option" where
  "pearson xs ys =
     (let ps = List.map_filter (\<lambda>(x, y). case (x, y) of (Some u, Some v) \<Rightarrow> Some (u, v) | _ \<Rightarrow> None)
                 (zip xs ys);
          mx = mean (map fst ps);
          my = mean (map snd ps);
          sxx = sum_list (map (\<lambda>(u, v). (u - mx) * (u - mx)) ps);
          syy = sum_list (map (\<lambda>(u, v). (v - my) * (v - my)) ps);
          sxy = sum_list (map (\<lambda>(u, v). (u - mx) * (v - my)) ps);
          divisor = sqrt (sxx * syy)
      in if ps = [] then None
         else if divisor \<noteq> 0 then Some (sxy / divisor)
         else None)"

definition corr :: "('r, 'c) frame \<Rightarrow> ('c, 'c) frame" where
  "corr df =
     (let k = length (columns df)
      in \<lparr>index = columns df, columns = columns df,
          cells = map (\<lambda>i. map (\<lambda>j. pearson (column_of df i) (column_of df j)) [0..<k]) [0..<k]\<rparr>)"

text \<open>
  What \<^verbatim>\<open>map_corr\<close> draws: the matrix handed to \<^verbatim>\<open>ax.matshow\<close>, the tick labels of
  both axes and the title. The function returns nothing.
\<close>

record 'c heatmap =
  matrix :: "real option list list"
  xticklabels :: "'c list"
  yticklabels :: "'c list"
  heat_title :: string

definition map_corr :: "('r, 'c) frame \<Rightarrow> 'c heatmap" where
  "map_corr df =
     (let c = corr df
      in \<lparr>matrix = cells c, xticklabels = columns c, yticklabels = columns c,
          heat_title = ''Correlation for selected Countries Heatmap''\<rparr>)"

section \<open>Normalizer\<close>

text \<open>
  \<^verbatim>\<open>StandardScaler().fit_transform\<close> on one column: mean and (population) variance
  of the present values, the scale being the standard deviation, or 1 for a column of
  zero variance; a missing cell stays missing.
\<close>

definition standard_scale :: "real option list \<Rightarrow> real option list" where
  "standard_scale col =
     (let vs = present col;
          mu = mean vs;
          var = mean (map (\<lambda>v. (v - mu)\<^sup>2) vs);
          scale = (if var = 0 then 1 else sqrt var)
      in map (map_option (\<lambda>v. (v - mu) / scale)) col)"

text \<open>
  \<^verbatim>\<open>pd.DataFrame(scaler.fit_transform(df), columns=df.columns)\<close>. The scaler refuses
  (ValueError) an array with no row or no column. The new frame gets the columns of
  \<open>df\<close> and, no index being given, the default one \<open>0, 1, ..., n - 1\<close>.
\<close>

definition normalize_data :: "('r, 'c) frame \<Rightarrow> py_error + (nat, 'c) frame" where
  "normalize_data df =
     (if cells df = [] \<or> columns df = [] then Inl ValueError
      else
        let scaled = map (\<lambda>j. standard_scale (column_of df j)) [0..<length (columns df)];
            n = length (cells df)
        in Inr \<lparr>index = [0..<n], columns = columns df,
                cells = map (\<lambda>i. map (\<lambda>col. col ! i) scaled) [0..<n]\<rparr>)"

section \<open>Clusterer\<close>

text \<open>
  The generator scikit-learn draws from, \<^verbatim>\<open>check_random_state(random_state)\<close>: a
  fresh one made from the seed when \<open>random_state\<close> is an integer, numpy's global
  generator (whose state \<open>g\<close> is whatever the process has left it in) when it is None.
\<close>

datatype rng = Seeded nat | Global nat

definition check_random_state :: "nat option \<Rightarrow> nat \<Rightarrow> rng" where
  "check_random_state random_state g =
     (case random_state of None \<Rightarrow> Global g | Some seed \<Rightarrow> Seeded seed)"

text \<open>
  Modelled from the spec: scikit-learn's KMeans is not part of the repository. The
  search for the centroids (seeding, restarts, Lloyd iterations) is the parameter
  \<open>fit\<close>: from the generator, \<open>n_init\<close> (None for the library's default), the number
  of clusters and the matrix it gives centroid \<open>j\<close> for each \<open>j\<close> below the number of
  clusters. The labels are the last assignment step: each row goes to its nearest
  centroid by Euclidean distance, the lowest index winning a tie.
\<close>

type_synonym kmeans_fit = "rng \<Rightarrow> nat option \<Rightarrow> nat \<Rightarrow> real list list \<Rightarrow> nat \<Rightarrow> real list"

definition sqdist :: "real list \<Rightarrow> real list \<Rightarrow> real" where
  "sqdist x c = sum_list (map (\<lambda>(u, v). (u - v)\<^sup>2) (zip x c))"

fun argmin_upto :: "(nat \<Rightarrow> real) \<Rightarrow> nat \<Rightarrow> nat" where
  "argmin_upto f 0 = 0"
| "argmin_upto f (Suc n) = (let b = argmin_upto f n in if f (Suc n) < f b then Suc n else b)"

definition nearest :: "(nat \<Rightarrow> real list) \<Rightarrow> nat \<Rightarrow> real list \<Rightarrow> nat" where
  "nearest centers k x = argmin_upto (\<lambda>j. sqdist x (centers j)) (k - 1)"

text \<open>
  \<^verbatim>\<open>KMeans(n_clusters, n_init, random_state).fit_predict(X)\<close>, with the fitted
  \<^verbatim>\<open>cluster_centers_\<close>. A ValueError for no cluster, for an empty matrix, for a
  missing value (NaN) and for fewer rows than clusters.
\<close>

definition KMeans_fit_predict ::
  "kmeans_fit \<Rightarrow> nat \<Rightarrow> nat \<Rightarrow> nat option \<Rightarrow> nat option \<Rightarrow> real option list list
    \<Rightarrow> py_error + (nat list \<times> real list list)" where
  "KMeans_fit_predict fit g n_clusters n_init random_state X =
     (if n_clusters = 0 then Inl ValueError
      else case those (map those X) of
             None \<Rightarrow> Inl ValueError
           | Some rows \<Rightarrow>
               if rows = [] \<or> hd rows = [] then Inl ValueError
               else if length rows < n_clusters then Inl ValueError
               else
                 let centers = fit (check_random_state random_state g) n_init n_clusters rows
                 in Inr (map (nearest centers n_clusters) rows,
                         map centers [0..<n_clusters]))"

definition perform_kmeans_clustering ::
  "kmeans_fit \<Rightarrow> nat \<Rightarrow> ('r, 'c) frame \<Rightarrow> nat \<Rightarrow> py_error + nat list" where
  "perform_kmeans_clustering fit g df num_clusters =
     (case KMeans_fit_predict fit g num_clusters (Some 5) (Some 42) (cells df) of
        Inl e \<Rightarrow> Inl e
      | Inr (cluster_labels, centers) \<Rightarrow> Inr cluster_labels)"

section \<open>Growth estimator\<close>

text \<open>
  \<^verbatim>\<open>curve_fit(exp_growth, xdata, ydata)\<close> belongs to scipy and is the parameter
  \<open>curve_fit\<close>: it gives the fitted parameters and their covariance, or the error it
  raises. It checks its data first and raises a ValueError on a NaN.
\<close>

type_synonym curve_fit = "real list \<Rightarrow> real list \<Rightarrow> py_error + (real list \<times> real list list)"

definition arange :: "nat \<Rightarrow> real list" where
  "arange n = map real [0..<n]"

text \<open>
  Lines 245 to 250: the loop over the rows of \<open>data\<close>. Row \<open>i\<close> of \<open>growth_rate\<close> is
  filled with \<open>popt[1]\<close>; \<open>ci\<close> is computed and dropped.
\<close>

fun growth_rate_loop ::
  "curve_fit \<Rightarrow> (real \<Rightarrow> int \<Rightarrow> real) \<Rightarrow> nat \<Rightarrow> real option list list
    \<Rightarrow> py_error + real list list" where
  "growth_rate_loop cf tppf ncols [] = Inr []"
| "growth_rate_loop cf tppf ncols (row # rows) =
     (case those row of
        None \<Rightarrow> Inl ValueError
      | Some ydata \<Rightarrow>
     (case cf (arange ncols) ydata of
        Inl e \<Rightarrow> Inl e
      | Inr (popt, pcov) \<Rightarrow>
     (case err_ranges tppf (arange ncols) ydata popt pcov (5 / 100) of
        Inl e \<Rightarrow> Inl e
      | Inr ci \<Rightarrow>
     (case growth_rate_loop cf tppf ncols rows of
        Inl e \<Rightarrow> Inl e
      | Inr growth_rate \<Rightarrow> Inr (replicate ncols (popt ! 1) # growth_rate)))))"

text \<open>\<^verbatim>\<open>', '.join(indicators)\<close>.\<close>

fun join :: "string \<Rightarrow> string list \<Rightarrow> string" where
  "join sep [] = []"
| "join sep [x] = x"
| "join sep (x # y # ys) = x @ sep @ join sep (y # ys)"

text \<open>
  What \<^verbatim>\<open>predict_future\<close> shows with \<^verbatim>\<open>plt.show()\<close>: one line per row of \<open>data\<close>
  (its label, its x and its y values), the axis labels and the title. The function has
  no return statement: the figure is all it produces.
\<close>

record figure =
  lines :: "(string \<times> real list \<times> real option list) list"
  xlabel :: string
  ylabel :: string
  title :: string

definition predict_future ::
  "(string \<Rightarrow> py_error + csv_frame) \<Rightarrow> (string \<Rightarrow> real option) \<Rightarrow> curve_fit
    \<Rightarrow> (real \<Rightarrow> int \<Rightarrow> real) \<Rightarrow> string \<Rightarrow> string list \<Rightarrow> string list \<Rightarrow> int \<Rightarrow> int
    \<Rightarrow> py_error + figure" where
  "predict_future read_csv to_num cf tppf Cereal_yield_data countries indicators start_year end_year =
     (case filter_Cereal_yield_data read_csv to_num Cereal_yield_data countries indicators
             start_year end_year of
        Inl e \<Rightarrow> Inl e
      | Inr data \<Rightarrow>
     (case growth_rate_loop cf tppf (length (columns data)) (cells data) of
        Inl e \<Rightarrow> Inl e
      | Inr growth_rate \<Rightarrow>
          Inr \<lparr>lines = map (\<lambda>(k, row). (fst k, arange (length (columns data)), row))
                         (zip (index data) (cells data)),
               xlabel = ''Year'', ylabel = ''Indicator Value'',
               title = join '', '' indicators\<rparr>))"

section \<open>The script's clustering run\<close>

text \<open>
  Lines 266 to 283 of the main block: load, subset, normalize, cluster into three groups
  with \<^verbatim>\<open>KMeans(n_clusters=3, random_state=42)\<close>. The path of the CSV file, a
  constant of the script, is the argument \<open>path\<close>.
\<close>

definition cluster_subset ::
  "kmeans_fit \<Rightarrow> nat \<Rightarrow> (string \<times> string, real) frame \<Rightarrow> py_error + (nat list \<times> real list list)" where
  "cluster_subset fit g df_years =
     (case subset_data df_years [''India'', ''United States'', ''China'', ''Bangladesh'']
             [''Cereal yield (kg per hectare)'', ''Population, total''] of
        Inl e \<Rightarrow> Inl e
      | Inr df \<Rightarrow>
     (case normalize_data df of
        Inl e \<Rightarrow> Inl e
      | Inr df_normalized \<Rightarrow> KMeans_fit_predict fit g 3 None (Some 42) (cells df_normalized)))"

definition main_clustering ::
  "(string \<Rightarrow> py_error + csv_frame) \<Rightarrow> (string \<Rightarrow> real option) \<Rightarrow> kmeans_fit \<Rightarrow> nat \<Rightarrow> string
    \<Rightarrow> py_error + (nat list \<times> real list list)" where
  "main_clustering read_csv to_num fit g path =
     (case file_read read_csv to_num path of
        Inl e \<Rightarrow> Inl e
      | Inr (df_years, df_countries) \<Rightarrow> cluster_subset fit g df_years)"

text \<open>
  A frame is complete when it is rectangular (a row of cells per row label, a cell per
  column label in every row) and no cell is missing.
\<close>

definition complete :: "('r, 'c) frame \<Rightarrow> bool" where
  "complete df =
     (length (index df) = length (cells df)
      \<and> list_all (\<lambda>row. length row = length (columns df) \<and> list_all (\<lambda>v. v \<noteq> None) row)
          (cells df))"

section \<open>The end-to-end scenario\<close>

text \<open>
  A loaded entity-major table for the scenario: the four countries with the two
  indicators (eight rows, sorted as the loader leaves them), a column for each year
  from 1990 to 2020, and a value in every cell.
\<close>

definition scenario_countries :: "string list" where
  "scenario_countries = [''India'', ''United States'', ''China'', ''Bangladesh'']"

definition scenario_indicators :: "string list" where
  "scenario_indicators = [''Cereal yield (kg per hectare)'', ''Population, total'']"

definition scenario_table :: "(string \<times> string, real) frame" where
  "scenario_table =
     \<lparr>index = [(''Bangladesh'', ''Cereal yield (kg per hectare)''),
               (''Bangladesh'', ''Population, total''),
               (''China'', ''Cereal yield (kg per hectare)''),
               (''China'', ''Population, total''),
               (''India'', ''Cereal yield (kg per hectare)''),
               (''India'', ''Population, total''),
               (''United States'', ''Cereal yield (kg per hectare)''),
               (''United States'', ''Population, total'')],
      columns = map real_of_int [1990..2020],
      cells = map (\<lambda>r. map (\<lambda>y. Some (real_of_int (r * y))) [1990..2020]) [1..8]\<rparr>"

text \<open>A stand-in for the centroid search: centroid \<open>j\<close> has \<open>j\<close> in every coordinate.\<close>

definition scenario_fit :: kmeans_fit where
  "scenario_fit r n_init k X j = replicate (length (hd X)) (real j)"

section \<open>A small CSV file\<close>

text \<open>
  A file with two countries, one indicator and the years 1991 and 1992, as
  \<^verbatim>\<open>read_csv\<close> hands it over, and stand-ins for the library routines: a
  \<^verbatim>\<open>to_numeric\<close> that reads unsigned decimal numbers (all that this file holds), a
  \<^verbatim>\<open>curve_fit\<close> that answers with a given rate \<open>b\<close>, and a quantile function.
\<close>

definition demo_csv :: csv_frame where
  "demo_csv =
     [(''Country Name'', [Some ''India'', Some ''China'']),
      (''Country Code'', [Some ''IND'', Some ''CHN'']),
      (''Indicator Name'', [Some ''Cereal yield'', Some ''Cereal yield'']),
      (''Indicator Code'', [Some ''AG.YLD'', Some ''AG.YLD'']),
      (''1991'', [Some ''10'', Some ''30'']),
      (''1992'', [Some ''20'', Some ''40'']),
      (''Unnamed: 66'', [None, None])]"

definition demo_read_csv :: "string \<Rightarrow> py_error + csv_frame" where
  "demo_read_csv filename = Inr demo_csv"

fun parse_digits :: "nat \<Rightarrow> string \<Rightarrow> nat option" where
  "parse_digits acc [] = Some acc"
| "parse_digits acc (c # cs) =
     (if CHR ''0'' \<le> c \<and> c \<le> CHR ''9''
      then parse_digits (10 * acc + (of_char c - 48)) cs
      else None)"

definition demo_to_num :: "string \<Rightarrow> real option" where
  "demo_to_num s = (if s = [] then None else map_option real (parse_digits 0 s))"

definition demo_curve_fit :: "real \<Rightarrow> curve_fit" where
  "demo_curve_fit b xdata ydata = Inr ([1, b], [[0, 0], [0, 0]])"

definition demo_tppf :: "real \<Rightarrow> int \<Rightarrow> real" where
  "demo_tppf q dof = q - 1 / 2"

section \<open>Theorems\<close>

lemma sum_squares_nonneg: "0 \<le> sum_list (map (\<lambda>r. r\<^sup>2) (rs :: real list))"
  by (induction rs) simp_all

lemma residual_stdev_eq:
  "residual_stdev rs df =
     (if df = 0 then None
      else if sum_list (map (\<lambda>r. r\<^sup>2) rs) / real_of_int df < 0 then None
      else Some (sqrt (sum_list (map (\<lambda>r. r\<^sup>2) rs) / real_of_int df)))"
  by (simp add: residual_stdev_def np_divide_def np_sqrt_def)

lemma residual_stdev_pos:
  assumes "0 < df"
  shows "residual_stdev rs df = Some (sqrt (sum_list (map (\<lambda>r. r\<^sup>2) rs) / real_of_int df))"
proof -
  have "0 \<le> sum_list (map (\<lambda>r. r\<^sup>2) rs) / real_of_int df"
    using assms sum_squares_nonneg [of rs] by simp
  with assms show ?thesis
    by (simp add: residual_stdev_eq)
qed

text \<open>
  C1. With two fitted parameters and as many time steps as observations, err_ranges
  returns, for each diagonal entry of the covariance, the half-width of the
  specification: the two-sided Student-t critical value for \<open>n - 2\<close> degrees of freedom,
  times the residual standard deviation \<open>sqrt (sum of squared residuals / (n - 2))\<close>,
  times \<open>sqrt (1 + entry)\<close>. The code takes the critical value as minus the lower
  \<open>alpha / 2\<close> quantile, which is the upper one because the t-distribution is
  symmetric.
\<close>

theorem err_ranges_half_width:
  assumes sym: "\<And>q dof. tppf (1 - q) dof = - tppf q dof"
    and len: "length xdata = length ydata"
  shows "err_ranges tppf xdata ydata [a, b] pcov alpha =
           Inr (map (spec_half_width tppf alpha (int (length ydata)) 2
                       (map2 (-) ydata (exp_growth xdata a b)))
                  (diag pcov))"
proof (cases "2 < length ydata")
  case True
  then have df: "max 0 (int (length ydata) - 2) = int (length ydata) - 2"
    and pos: "0 < int (length ydata) - 2"
    by simp_all
  show ?thesis
    using len True
    by (simp add: err_ranges_def Let_def df residual_stdev_pos [OF pos] spec_half_width_def
        two_sided_critical_def sym np_sqrt_def)
next
  case False
  then have df: "max 0 (int (length ydata) - 2) = 0"
    by simp
  show ?thesis
    using len False
    by (simp add: err_ranges_def Let_def df residual_stdev_eq spec_half_width_def)
qed

theorem err_ranges_half_width_witness:
  "(\<forall>q dof. (\<lambda>(q :: real) (_ :: int). q - 1 / 2) (1 - q) dof
       = - (\<lambda>(q :: real) (_ :: int). q - 1 / 2) q dof)
   \<and> length [0, 1, 2 :: real] = length [1, 2, 4 :: real]
   \<and> err_ranges (\<lambda>q _. q - 1 / 2) [0, 1, 2] [1, 2, 4] [1, 0] [[0, 0], [0, 0]] (1 / 20)
       = Inr [Some (19 / 40 * sqrt 10), Some (19 / 40 * sqrt 10)]"
  using err_ranges_half_width
    [of "\<lambda>q _. q - 1 / 2" "[0, 1, 2]" "[1, 2, 4]" 1 0 "[[0, 0], [0, 0]]" "1 / 20"]
  by (simp add: spec_half_width_def two_sided_critical_def diag_def exp_growth_def upt_rec)

text \<open>
  C5. The degrees of freedom are \<open>max 0 (n - 2)\<close>. With at most two observations they
  are zero, the residual standard deviation divides by zero and every margin err_ranges
  returns is undefined (nan). With more than two observations the divisor is not zero,
  the residual standard deviation is a number, and err_ranges returns one margin per
  diagonal entry of the covariance, each a number when the entry is at least \<open>- 1\<close>.
\<close>

theorem err_ranges_division_guard:
  fixes a b :: real and xdata ydata :: "real list"
  assumes len: "length xdata = length ydata"
  defines "df \<equiv> max 0 (int (length ydata) - int (length [a, b]))"
  defines "residuals \<equiv> map2 (-) ydata (exp_growth xdata a b)"
  shows "(length ydata \<le> 2 \<longrightarrow>
            df = 0 \<and> residual_stdev residuals df = None
            \<and> err_ranges tppf xdata ydata [a, b] pcov alpha = Inr (map (\<lambda>d. None) (diag pcov)))
       \<and> (2 < length ydata \<longrightarrow>
            df \<noteq> 0 \<and> residual_stdev residuals df \<noteq> None
            \<and> (\<exists>ci. err_ranges tppf xdata ydata [a, b] pcov alpha = Inr ci
                  \<and> length ci = length (diag pcov)
                  \<and> (list_all (\<lambda>d. 0 \<le> 1 + d) (diag pcov) \<longrightarrow> list_all (\<lambda>c. c \<noteq> None) ci)))"
proof (intro conjI impI)
  assume le: "length ydata \<le> 2"
  then show "df = 0"
    by (simp add: df_def)
  then show "residual_stdev residuals df = None"
    by (simp add: residual_stdev_eq)
  show "err_ranges tppf xdata ydata [a, b] pcov alpha = Inr (map (\<lambda>d. None) (diag pcov))"
    using len le by (simp add: err_ranges_def Let_def residual_stdev_eq)
next
  assume gt: "2 < length ydata"
  then have pos: "0 < df"
    by (simp add: df_def)
  then show "df \<noteq> 0"
    by simp
  show "residual_stdev residuals df \<noteq> None"
    by (simp add: residual_stdev_pos [OF pos])
  have df2: "max 0 (int (length ydata) - 2) = df"
    by (simp add: df_def)
  show "\<exists>ci. err_ranges tppf xdata ydata [a, b] pcov alpha = Inr ci
          \<and> length ci = length (diag pcov)
          \<and> (list_all (\<lambda>d. 0 \<le> 1 + d) (diag pcov) \<longrightarrow> list_all (\<lambda>c. c \<noteq> None) ci)"
    using len
    by (simp add: err_ranges_def Let_def df2 residual_stdev_pos [OF pos] np_sqrt_def
        list_all_iff not_less [symmetric])
qed

theorem err_ranges_division_guard_witness:
  "err_ranges (\<lambda>q _. q - 1 / 2) [0, 1] [1, 2] [1, 0] [[0, 0], [0, 0]] (1 / 20)
     = Inr [None, None]
   \<and> residual_stdev (map2 (-) [1, 2] (exp_growth [0, 1] 1 0))
       (max 0 (int (length [1, 2 :: real]) - int (length [1, 0 :: real]))) = None
   \<and> (\<exists>ci. err_ranges (\<lambda>q _. q - 1 / 2) [0, 1, 2] [1, 2, 4] [1, 0] [[0, 0], [0, 0]] (1 / 20)
              = Inr ci
         \<and> list_all (\<lambda>c. c \<noteq> None) ci)"
  using err_ranges_division_guard
      [of "[0, 1]" "[1, 2]" 1 0 "\<lambda>q _. q - 1 / 2" "[[0, 0], [0, 0]]" "1 / 20"]
    err_ranges_division_guard
      [of "[0, 1, 2]" "[1, 2, 4]" 1 0 "\<lambda>q _. q - 1 / 2" "[[0, 0], [0, 0]]" "1 / 20"]
  by (auto simp add: diag_def upt_rec)

subsection \<open>Clustering does not depend on the ambient generator\<close>

lemma check_random_state_seed: "check_random_state (Some seed) g = Seeded seed"
  by (simp add: check_random_state_def)

lemma KMeans_seeded_ignores_generator:
  "KMeans_fit_predict fit g k n_init (Some seed) X
     = KMeans_fit_predict fit g' k n_init (Some seed) X"
  by (simp add: KMeans_fit_predict_def check_random_state_seed split: option.split)

text \<open>
  Without a seed the labels can change with the state the global generator is in: the
  state is a real input of the model.
\<close>

lemma KMeans_unseeded_depends_on_generator:
  "KMeans_fit_predict
      (\<lambda>r _ _ _ j. case r of Global n \<Rightarrow> [if j = n then 0 else 1] | Seeded _ \<Rightarrow> [0])
      0 2 None None [[Some 0], [Some 0]]
   \<noteq> KMeans_fit_predict
      (\<lambda>r _ _ _ j. case r of Global n \<Rightarrow> [if j = n then 0 else 1] | Seeded _ \<Rightarrow> [0])
      1 2 None None [[Some 0], [Some 0]]"
  by (simp add: KMeans_fit_predict_def check_random_state_def nearest_def sqdist_def)

text \<open>
  C8. perform_kmeans_clustering passes the fixed seed 42, so two runs on the same matrix
  and the same number of clusters give the same labels (or the same error), whatever
  state the process's global random generator is in at each run.
\<close>

theorem perform_kmeans_clustering_deterministic:
  "perform_kmeans_clustering fit g df k = perform_kmeans_clustering fit g' df k"
  by (simp add: perform_kmeans_clustering_def
      KMeans_seeded_ignores_generator [of fit g k _ _ _ g'])

subsection \<open>Normalizer\<close>

text \<open>
  C10. For a frame with at least one row and one column, normalize_data returns a frame
  with the same column labels and the same shape (as many rows, each as long as the
  column list), whose row labels are \<open>0, 1, ..., n - 1\<close> whatever the row labels of the
  input were.
\<close>

theorem normalize_data_shape_and_index:
  assumes "cells df \<noteq> []" and "columns df \<noteq> []"
  shows "\<exists>out. normalize_data df = Inr out
           \<and> columns out = columns df
           \<and> index out = [0..<length (cells df)]
           \<and> length (cells out) = length (cells df)
           \<and> list_all (\<lambda>row. length row = length (columns df)) (cells out)"
  using assms by (simp add: normalize_data_def Let_def list_all_iff)

theorem normalize_data_shape_and_index_witness:
  "cells \<lparr>index = [1991, 1992 :: real], columns = [''a''], cells = [[Some 1], [Some 3]]\<rparr> \<noteq> []
   \<and> columns \<lparr>index = [1991, 1992 :: real], columns = [''a''],
        cells = [[Some 1], [Some 3]]\<rparr> \<noteq> []
   \<and> (\<exists>out. normalize_data \<lparr>index = [1991, 1992 :: real], columns = [''a''],
                  cells = [[Some 1], [Some 3]]\<rparr> = Inr out
          \<and> columns out = [''a''] \<and> index out = [0, 1] \<and> length (cells out) = 2)"
  using normalize_data_shape_and_index
    [of "\<lparr>index = [1991, 1992 :: real], columns = [''a''], cells = [[Some 1], [Some 3]]\<rparr>"]
  by (auto simp add: upt_rec)

subsection \<open>Correlation matrix\<close>

lemma pairs_swap:
  "List.map_filter (\<lambda>(x, y). case (x, y) of (Some u, Some v) \<Rightarrow> Some (u, v) | _ \<Rightarrow> None)
     (zip ys xs)
   = map prod.swap
       (List.map_filter (\<lambda>(x, y). case (x, y) of (Some u, Some v) \<Rightarrow> Some (u, v) | _ \<Rightarrow> None)
          (zip xs ys))"
proof (induction xs arbitrary: ys)
  case Nil
  then show ?case by (simp add: List.map_filter_simps)
next
  case (Cons x xs)
  then show ?case
    by (cases ys) (auto simp add: List.map_filter_simps split: option.splits)
qed

lemma pearson_commute: "pearson xs ys = pearson ys xs"
proof -
  let ?f = "\<lambda>(x :: real option, y :: real option).
              case (x, y) of (Some u, Some v) \<Rightarrow> Some (u, v) | _ \<Rightarrow> None"
  let ?ps = "List.map_filter ?f (zip xs ys)"
  have sw: "List.map_filter ?f (zip ys xs) = map prod.swap ?ps"
    by (rule pairs_swap)
  have m1: "map fst (map prod.swap ?ps) = map snd ?ps"
    and m2: "map snd (map prod.swap ?ps) = map fst ?ps"
    by simp_all
  have s: "\<And>g. map (\<lambda>(u, v). g u v) (map prod.swap ?ps) = map (\<lambda>(u, v). g v u) ?ps"
    by (simp add: case_prod_beta)
  show ?thesis
    unfolding pearson_def sw Let_def m1 m2 s
    by (simp add: mult.commute)
qed

lemma pairs_diag:
  "List.map_filter (\<lambda>(x, y). case (x, y) of (Some u, Some v) \<Rightarrow> Some (u, v) | _ \<Rightarrow> None)
     (zip xs xs)
   = map (\<lambda>u. (u, u)) (present xs)"
  by (induction xs) (auto simp add: List.map_filter_simps present_def split: option.splits)

lemma set_present: "set (present xs) = {u. Some u \<in> set xs}"
  by (induction xs) (auto simp add: List.map_filter_simps present_def split: option.splits)

lemma sum_sq_dev_nonneg: "0 \<le> sum_list (map (\<lambda>w. (w - m) * (w - m)) (vs :: real list))"
  by (induction vs) simp_all

lemma sum_sq_dev_zero:
  "sum_list (map (\<lambda>w. (w - m) * (w - m)) (vs :: real list)) = 0 \<Longrightarrow> w \<in> set vs \<Longrightarrow> w = m"
proof (induction vs)
  case Nil
  then show ?case by simp
next
  case (Cons x vs)
  have "0 \<le> (x - m) * (x - m)"
    by simp
  with Cons.prems(1) sum_sq_dev_nonneg [of m vs]
  have "(x - m) * (x - m) = 0" and "sum_list (map (\<lambda>w. (w - m) * (w - m)) vs) = 0"
    by (simp_all add: add_nonneg_eq_0_iff)
  with Cons show ?case
    by auto
qed

lemma sum_sq_dev_pos:
  assumes "u \<in> set vs" "v \<in> set vs" "u \<noteq> v"
  shows "0 < sum_list (map (\<lambda>w. (w - m) * (w - m)) (vs :: real list))"
proof (rule ccontr)
  assume "\<not> 0 < sum_list (map (\<lambda>w. (w - m) * (w - m)) vs)"
  with sum_sq_dev_nonneg [of m vs] have z: "sum_list (map (\<lambda>w. (w - m) * (w - m)) vs) = 0"
    by simp
  from sum_sq_dev_zero [OF z assms(1)] sum_sq_dev_zero [OF z assms(2)] assms(3)
  show False by simp
qed

lemma pearson_self:
  assumes "Some u \<in> set xs" "Some v \<in> set xs" "u \<noteq> v"
  shows "pearson xs xs = Some 1"
proof -
  let ?vs = "present xs"
  let ?m = "mean ?vs"
  let ?S = "sum_list (map (\<lambda>w. (w - ?m) * (w - ?m)) ?vs)"
  have mem: "u \<in> set ?vs" "v \<in> set ?vs"
    using assms by (simp_all add: set_present)
  then have pos: "0 < ?S"
    using assms(3) by (rule sum_sq_dev_pos)
  have ne: "?vs \<noteq> []"
    using mem by auto
  have maps: "map fst (map (\<lambda>u. (u, u)) ?vs) = ?vs" "map snd (map (\<lambda>u. (u, u)) ?vs) = ?vs"
    by (simp_all add: comp_def)
  have sums: "\<And>g. map (\<lambda>(a, b). g a b) (map (\<lambda>u. (u, u)) ?vs) = map (\<lambda>w. g w w) ?vs"
    by (simp add: comp_def)
  show ?thesis
    unfolding pearson_def pairs_diag Let_def maps sums
    using pos ne by simp
qed

text \<open>
  C9. The matrix map_corr draws is symmetric, entry \<open>(i, j)\<close> equal to entry \<open>(j, i)\<close>
  (also where both are NaN), and its diagonal entry is 1 for every column that is not
  constant, that is, holds two different values.
\<close>

theorem map_corr_symmetric_unit_diagonal:
  assumes "i < length (columns df)" and "j < length (columns df)"
  shows "matrix (map_corr df) ! i ! j = matrix (map_corr df) ! j ! i
       \<and> ((\<exists>u v. Some u \<in> set (column_of df i) \<and> Some v \<in> set (column_of df i) \<and> u \<noteq> v)
            \<longrightarrow> matrix (map_corr df) ! i ! i = Some 1)"
proof -
  have entry: "\<And>a b. a < length (columns df) \<Longrightarrow> b < length (columns df) \<Longrightarrow>
      matrix (map_corr df) ! a ! b = pearson (column_of df a) (column_of df b)"
    by (simp add: map_corr_def corr_def Let_def)
  show ?thesis
    using assms pearson_commute [of "column_of df i" "column_of df j"]
    by (auto simp add: entry intro: pearson_self)
qed

theorem map_corr_symmetric_unit_diagonal_witness:
  "(0 :: nat) < length (columns \<lparr>index = [1991, 1992 :: real], columns = [''a'', ''b''],
                          cells = [[Some 1, Some 5], [Some 3, Some 4]]\<rparr>)
   \<and> (1 :: nat) < length (columns \<lparr>index = [1991, 1992 :: real], columns = [''a'', ''b''],
                          cells = [[Some 1, Some 5], [Some 3, Some 4]]\<rparr>)
   \<and> matrix (map_corr \<lparr>index = [1991, 1992 :: real], columns = [''a'', ''b''],
                          cells = [[Some 1, Some 5], [Some 3, Some 4]]\<rparr>) ! 0 ! 1
     = matrix (map_corr \<lparr>index = [1991, 1992 :: real], columns = [''a'', ''b''],
                          cells = [[Some 1, Some 5], [Some 3, Some 4]]\<rparr>) ! 1 ! 0
   \<and> matrix (map_corr \<lparr>index = [1991, 1992 :: real], columns = [''a'', ''b''],
                          cells = [[Some 1, Some 5], [Some 3, Some 4]]\<rparr>) ! 0 ! 0 = Some 1"
proof -
  let ?df = "\<lparr>index = [1991, 1992 :: real], columns = [''a'', ''b''],
              cells = [[Some 1, Some 5], [Some 3, Some 4]]\<rparr>"
  have nonconst:
    "\<exists>u v. Some u \<in> set (column_of ?df 0) \<and> Some v \<in> set (column_of ?df 0) \<and> u \<noteq> v"
    by (rule exI [of _ 1], rule exI [of _ 3]) (simp add: column_of_def)
  show ?thesis
    using map_corr_symmetric_unit_diagonal [of 0 ?df 1] nonconst
    by simp
qed

subsection \<open>Subsetting and the clustering run\<close>

lemma length_py_range_1991_2019: "length (py_range 1991 2019) = 28"
  by (simp add: py_range_def)

lemma subset_data_shape:
  assumes "subset_data df_years countries indicators = Inr t"
  shows "index t = map real_of_int (py_range 1991 2019)
       \<and> length (cells t) = length (index t)
       \<and> columns t = filter (\<lambda>k. k \<in> set (index df_years))
                        (concat (map (\<lambda>c. map (\<lambda>n. (c, n)) (unique indicators)) (unique countries)))
       \<and> list_all (\<lambda>row. length row = length (columns t)) (cells t)"
  using assms
  by (auto simp add: subset_data_def loc_rows_columns_def transpose_frame_def Let_def list_all_iff
      split: if_splits)

lemma argmin_upto_le: "argmin_upto f n \<le> n"
  by (induction n) (auto simp add: Let_def le_SucI)

lemma nearest_less: "0 < k \<Longrightarrow> nearest centers k x < k"
  using argmin_upto_le [of "\<lambda>j. sqdist x (centers j)" "k - 1"]
  by (simp add: nearest_def)

lemma those_length: "those xs = Some ys \<Longrightarrow> length ys = length xs"
  by (induction xs arbitrary: ys) (auto split: option.splits)

lemma KMeans_fit_predict_labels:
  assumes "KMeans_fit_predict fit g k n_init random_state X = Inr (labels, centers)"
  shows "length labels = length X \<and> list_all (\<lambda>l. l < k) labels"
  using assms
  by (auto simp add: KMeans_fit_predict_def Let_def list_all_iff nearest_less
      split: if_splits option.splits dest: those_length)

lemma normalize_data_rows:
  "normalize_data df = Inr out \<Longrightarrow> length (cells out) = length (cells df)"
  by (auto simp add: normalize_data_def Let_def split: if_splits)

lemma cluster_subset_labels_aux:
  assumes "cluster_subset fit g df_years = Inr (labels, centers)"
  shows "\<exists>df. subset_data df_years [''India'', ''United States'', ''China'', ''Bangladesh'']
                 [''Cereal yield (kg per hectare)'', ''Population, total''] = Inr df
              \<and> length labels = length (index df)
              \<and> list_all (\<lambda>l. l < 3) labels"
proof -
  let ?s = "subset_data df_years [''India'', ''United States'', ''China'', ''Bangladesh'']
              [''Cereal yield (kg per hectare)'', ''Population, total'']"
  from assms obtain df where df: "?s = Inr df"
    by (cases ?s) (simp_all add: cluster_subset_def)
  from assms df obtain dfn where dfn: "normalize_data df = Inr dfn"
    by (cases "normalize_data df") (simp_all add: cluster_subset_def)
  from assms df dfn
  have km: "KMeans_fit_predict fit g 3 None (Some 42) (cells dfn) = Inr (labels, centers)"
    by (simp add: cluster_subset_def)
  from KMeans_fit_predict_labels [OF km] normalize_data_rows [OF dfn] subset_data_shape [OF df]
  have "length labels = length (index df) \<and> list_all (\<lambda>l. l < 3) labels"
    by simp
  with df show ?thesis
    by blast
qed

lemma cell_of_Some:
  assumes "length cols = length row" and "y \<in> set cols" and "list_all (\<lambda>v. v \<noteq> None) row"
  shows "cell_of cols row y \<noteq> None"
proof -
  from assms(1,2) obtain v where v: "map_of (zip cols row) y = Some v"
    by (auto simp add: map_of_zip_is_Some)
  then have "v \<in> set row"
    by (meson map_of_SomeD set_zip_rightD)
  with assms(3) v show ?thesis
    by (simp add: cell_of_def list_all_iff)
qed

lemma row_of_mem:
  assumes "length (index df) = length (cells df)" and "k \<in> set (index df)"
  shows "row_of df k \<in> set (cells df)"
proof -
  from assms obtain row where row: "map_of (zip (index df) (cells df)) k = Some row"
    by (auto simp add: map_of_zip_is_Some)
  then have "row \<in> set (cells df)"
    by (meson map_of_SomeD set_zip_rightD)
  with row show ?thesis
    by (simp add: row_of_def)
qed

lemma loc_cell_Some:
  assumes "complete df" and "k \<in> set (index df)" and "y \<in> set (columns df)"
  shows "cell_of (columns df) (row_of df k) y \<noteq> None"
proof -
  from assms(1,2) have "row_of df k \<in> set (cells df)"
    by (simp add: complete_def row_of_mem)
  with assms(1) have "length (columns df) = length (row_of df k)"
    and "list_all (\<lambda>v. v \<noteq> None) (row_of df k)"
    by (simp_all add: complete_def list_all_iff)
  with assms(3) show ?thesis
    by (simp add: cell_of_Some)
qed

lemma subset_data_complete:
  assumes c: "complete df_years" and s: "subset_data df_years countries indicators = Inr t"
  shows "complete t"
proof -
  let ?years = "map real_of_int (py_range 1991 2019)"
  let ?keys = "filter (\<lambda>k. k \<in> set (index df_years))
                 (concat (map (\<lambda>c. map (\<lambda>n. (c, n)) (unique indicators)) (unique countries)))"
  from s have ys: "set ?years \<subseteq> set (columns df_years)"
    by (auto simp add: subset_data_def loc_rows_columns_def Let_def list_all_iff
        split: if_splits)
  from s have t: "t = \<lparr>index = ?years, columns = ?keys,
      cells = map (\<lambda>j. map (\<lambda>row. row ! j)
                (map (\<lambda>k. map (cell_of (columns df_years) (row_of df_years k)) ?years) ?keys))
              [0..<length ?years]\<rparr>"
    by (auto simp add: subset_data_def loc_rows_columns_def Let_def transpose_frame_def
        split: if_splits)
  have cell: "\<And>k j. k \<in> set ?keys \<Longrightarrow> j < length ?years \<Longrightarrow>
      cell_of (columns df_years) (row_of df_years k) (?years ! j) \<noteq> None"
  proof -
    fix k j
    assume k: "k \<in> set ?keys" and j: "j < length ?years"
    from j have "?years ! j \<in> set ?years"
      by (rule nth_mem)
    with ys have "?years ! j \<in> set (columns df_years)"
      by blast
    moreover from k have "k \<in> set (index df_years)"
      by simp
    ultimately show "cell_of (columns df_years) (row_of df_years k) (?years ! j) \<noteq> None"
      using c by (simp add: loc_cell_Some)
  qed
  show ?thesis
    unfolding t complete_def
    using cell by (auto simp add: list_all_iff simp del: map_map)
qed

lemma those_all_Some:
  "list_all (\<lambda>v. v \<noteq> None) xs \<Longrightarrow> those xs = Some (map the xs)"
  by (induction xs) auto

lemma those_rows:
  assumes "list_all (\<lambda>row. list_all (\<lambda>v. v \<noteq> None) row) X"
  shows "those (map those X) = Some (map (map the) X)"
  using assms by (induction X) (auto simp add: those_all_Some)

lemma standard_scale_Some:
  "list_all (\<lambda>v. v \<noteq> None) col \<Longrightarrow> list_all (\<lambda>v. v \<noteq> None) (standard_scale col)"
  by (auto simp add: standard_scale_def Let_def list_all_iff)

lemma length_standard_scale: "length (standard_scale col) = length col"
  by (simp add: standard_scale_def Let_def)

lemma normalize_data_complete:
  assumes c: "complete df" and n: "normalize_data df = Inr out"
  shows "complete out"
proof -
  let ?k = "length (columns df)"
  let ?n = "length (cells df)"
  let ?scaled = "map (\<lambda>j. standard_scale (column_of df j)) [0..<?k]"
  from n have out: "out = \<lparr>index = [0..<?n], columns = columns df,
      cells = map (\<lambda>i. map (\<lambda>col. col ! i) ?scaled) [0..<?n]\<rparr>"
    by (auto simp add: normalize_data_def Let_def split: if_splits)
  have col: "\<And>j. j < ?k \<Longrightarrow> list_all (\<lambda>v. v \<noteq> None) (column_of df j)"
    using c by (auto simp add: complete_def column_of_def list_all_iff)
  have cell: "\<And>i j. i < ?n \<Longrightarrow> j < ?k \<Longrightarrow> standard_scale (column_of df j) ! i \<noteq> None"
  proof -
    fix i j
    assume i: "i < ?n" and j: "j < ?k"
    from i have "i < length (standard_scale (column_of df j))"
      by (simp add: length_standard_scale column_of_def)
    then have "standard_scale (column_of df j) ! i \<in> set (standard_scale (column_of df j))"
      by (rule nth_mem)
    with standard_scale_Some [OF col [OF j]]
    show "standard_scale (column_of df j) ! i \<noteq> None"
      by (simp add: list_all_iff)
  qed
  show ?thesis
    unfolding out complete_def
    using cell by (auto simp add: list_all_iff simp del: map_map)
qed

lemma KMeans_fit_predict_complete:
  assumes all: "list_all (\<lambda>row. list_all (\<lambda>v. v \<noteq> None) row) X"
    and ne: "X \<noteq> []" and hd: "hd X \<noteq> []" and le: "k \<le> length X" and pos: "0 < k"
  shows "\<exists>labels centers. KMeans_fit_predict fit g k n_init random_state X = Inr (labels, centers)"
proof -
  have th: "those (map those X) = Some (map (map the) X)"
    using all by (rule those_rows)
  have h: "hd (map (map the) X) \<noteq> []"
    using ne hd by (cases X) simp_all
  show ?thesis
    using ne le pos h by (simp add: KMeans_fit_predict_def th Let_def)
qed

lemma cluster_subset_succeeds:
  assumes c: "complete df_years"
    and s: "subset_data df_years [''India'', ''United States'', ''China'', ''Bangladesh'']
              [''Cereal yield (kg per hectare)'', ''Population, total''] = Inr df"
    and cols: "columns df \<noteq> []"
  shows "\<exists>labels centers. cluster_subset fit g df_years = Inr (labels, centers)"
proof -
  from subset_data_shape [OF s] have rows: "length (cells df) = 28"
    by (simp add: length_py_range_1991_2019)
  then have "cells df \<noteq> []"
    by auto
  with cols obtain dfn where dfn: "normalize_data df = Inr dfn"
    by (auto simp add: normalize_data_def Let_def)
  have cdf: "complete df"
    using c s by (rule subset_data_complete)
  then have cn: "complete dfn"
    using dfn by (rule normalize_data_complete)
  from dfn have shape: "length (cells dfn) = 28" "columns dfn = columns df"
    using rows by (auto simp add: normalize_data_def Let_def split: if_splits)
  from cn have all: "list_all (\<lambda>row. list_all (\<lambda>v. v \<noteq> None) row) (cells dfn)"
    by (simp add: complete_def list_all_iff)
  from shape have ne: "cells dfn \<noteq> []"
    by auto
  then have "hd (cells dfn) \<in> set (cells dfn)"
    by simp
  with cn have "length (hd (cells dfn)) = length (columns dfn)"
    by (simp add: complete_def list_all_iff)
  with cols shape have hd: "hd (cells dfn) \<noteq> []"
    by auto
  from KMeans_fit_predict_complete [OF all ne hd, of 3 fit g None "Some 42"] shape
  obtain labels centers
    where "KMeans_fit_predict fit g 3 None (Some 42) (cells dfn) = Inr (labels, centers)"
    by auto
  with s dfn show ?thesis
    by (simp add: cluster_subset_def)
qed

subsection \<open>The end-to-end scenario\<close>

lemma scenario_rows:
  "cells scenario_table
     = map (\<lambda>r. map (\<lambda>y. Some (real_of_int (r * y))) [1990..2020]) [1..8]"
  by (simp add: scenario_table_def)

lemma complete_scenario_table: "complete scenario_table"
  unfolding complete_def list_all_iff scenario_rows
  by (auto simp add: scenario_table_def)

lemma subset_data_Inr:
  assumes "list_all (\<lambda>y. y \<in> set (columns df_years)) (map real_of_int (py_range 1991 2019))"
    and "list_all (\<lambda>c. c \<in> set (map fst (index df_years))) countries"
    and "list_all (\<lambda>n. n \<in> set (map snd (index df_years))) indicators"
  shows "\<exists>t. subset_data df_years countries indicators = Inr t"
  using assms by (simp add: subset_data_def loc_rows_columns_def Let_def)

lemma scenario_years_present:
  "list_all (\<lambda>y. y \<in> set (columns scenario_table)) (map real_of_int (py_range 1991 2019))"
  by (auto simp add: list_all_iff py_range_def scenario_table_def)

lemma scenario_index:
  "index scenario_table =
     [(''Bangladesh'', ''Cereal yield (kg per hectare)''), (''Bangladesh'', ''Population, total''),
      (''China'', ''Cereal yield (kg per hectare)''), (''China'', ''Population, total''),
      (''India'', ''Cereal yield (kg per hectare)''), (''India'', ''Population, total''),
      (''United States'', ''Cereal yield (kg per hectare)''),
      (''United States'', ''Population, total'')]"
  by (simp add: scenario_table_def)

lemma scenario_keys:
  "filter (\<lambda>k. k \<in> set (index scenario_table))
     (concat (map (\<lambda>c. map (\<lambda>n. (c, n))
        (unique [''Cereal yield (kg per hectare)'', ''Population, total'']))
        (unique [''India'', ''United States'', ''China'', ''Bangladesh''])))
   = [(''India'', ''Cereal yield (kg per hectare)''), (''India'', ''Population, total''),
      (''United States'', ''Cereal yield (kg per hectare)''),
      (''United States'', ''Population, total''),
      (''China'', ''Cereal yield (kg per hectare)''), (''China'', ''Population, total''),
      (''Bangladesh'', ''Cereal yield (kg per hectare)''), (''Bangladesh'', ''Population, total'')]"
  unfolding scenario_index by (simp add: unique_def)

lemma subset_data_scenario:
  "\<exists>t. subset_data scenario_table [''India'', ''United States'', ''China'', ''Bangladesh'']
          [''Cereal yield (kg per hectare)'', ''Population, total''] = Inr t
       \<and> length (index t) = 28 \<and> length (columns t) = 8"
proof -
  have "\<exists>t. subset_data scenario_table [''India'', ''United States'', ''China'', ''Bangladesh'']
          [''Cereal yield (kg per hectare)'', ''Population, total''] = Inr t"
    by (rule subset_data_Inr [OF scenario_years_present]) (simp_all add: scenario_index)
  then obtain t where t: "subset_data scenario_table
      [''India'', ''United States'', ''China'', ''Bangladesh'']
      [''Cereal yield (kg per hectare)'', ''Population, total''] = Inr t"
    by blast
  from subset_data_shape [OF t] have "length (index t) = 28" "length (columns t) = 8"
    by (simp_all add: length_py_range_1991_2019 scenario_keys)
  with t show ?thesis
    by blast
qed

text \<open>
  C3. On the scenario's table, which holds the requested keys and a column for every
  year from 1990 to 2020, subset_data returns 28 rows, the years 1991 to 2018 of
  \<^verbatim>\<open>range(1991, 2019)\<close>, and 8 columns, one per requested (country, indicator) pair
  present. The claim's 29 rows for 1991 to 2019 are not what the code returns.
\<close>

theorem subset_data_scenario_shape:
  "map_sum id (\<lambda>t. (length (index t), length (columns t)))
     (subset_data scenario_table [''India'', ''United States'', ''China'', ''Bangladesh'']
        [''Cereal yield (kg per hectare)'', ''Population, total'']) = Inr (28, 8)"
  using subset_data_scenario by auto

text \<open>
  C4, as amended. When the clustering run of the main block returns, it returns one
  label per row of the normalized subset, that is, per year of the subset (the subset
  has the years as rows and the country and indicator pairs as columns), and every label
  is 0, 1 or 2.
\<close>

theorem cluster_subset_labels:
  assumes "cluster_subset fit g df_years = Inr (labels, centers)"
  shows "\<exists>df. subset_data df_years [''India'', ''United States'', ''China'', ''Bangladesh'']
                 [''Cereal yield (kg per hectare)'', ''Population, total''] = Inr df
              \<and> length labels = length (index df)
              \<and> list_all (\<lambda>l. l < 3) labels"
  using assms by (rule cluster_subset_labels_aux)

lemma cluster_subset_scenario:
  "\<exists>labels centers. cluster_subset scenario_fit 0 scenario_table = Inr (labels, centers)
       \<and> length labels = 28"
proof -
  from subset_data_scenario obtain t
    where t: "subset_data scenario_table [''India'', ''United States'', ''China'', ''Bangladesh'']
                [''Cereal yield (kg per hectare)'', ''Population, total''] = Inr t"
      and len: "length (index t) = 28" "length (columns t) = 8"
    by blast
  from len have "columns t \<noteq> []"
    by auto
  from cluster_subset_succeeds [OF complete_scenario_table t this]
  obtain labels centers
    where run: "cluster_subset scenario_fit 0 scenario_table = Inr (labels, centers)"
    by blast
  from cluster_subset_labels_aux [OF run] t len have "length labels = 28"
    by auto
  with run show ?thesis
    by blast
qed

theorem cluster_subset_labels_witness:
  "\<exists>labels centers. cluster_subset scenario_fit 0 scenario_table = Inr (labels, centers)
       \<and> (\<exists>df. subset_data scenario_table [''India'', ''United States'', ''China'', ''Bangladesh'']
                 [''Cereal yield (kg per hectare)'', ''Population, total''] = Inr df
              \<and> length labels = length (index df))
       \<and> list_all (\<lambda>l. l < 3) labels"
proof -
  from cluster_subset_scenario obtain labels centers
    where run: "cluster_subset scenario_fit 0 scenario_table = Inr (labels, centers)"
    by blast
  from cluster_subset_labels [OF run] run show ?thesis
    by blast
qed

text \<open>
  The claim as stated fails on the scenario: the label array has length 28, not 4.
\<close>

theorem cluster_subset_labels_counterexample:
  "map_sum id (length \<circ> fst) (cluster_subset scenario_fit 0 scenario_table) = Inr 28
   \<and> map_sum id (length \<circ> fst) (cluster_subset scenario_fit 0 scenario_table) \<noteq> Inr 4"
  using cluster_subset_scenario by auto

subsection \<open>Growth estimator: what predict_future produces\<close>

lemmas loader_defs = demo_read_csv_def demo_csv_def drop_columns_def
      rename_column_def filter_isin_def isin_def melt_def to_numeric_year_def to_numeric_value_def
      pivot_table_def country_indicator_key_def year_indicator_key_def List.map_filter_simps
      loc_column_slice_def mean_opt_def demo_to_num_def Let_def dropna_all_columns_def

lemma predict_future_figure:
  assumes "predict_future read_csv to_num cf tppf filename countries indicators
             start_year end_year = Inr fig"
  shows "\<exists>data. filter_Cereal_yield_data read_csv to_num filename countries indicators
                   start_year end_year = Inr data
          \<and> fig = \<lparr>lines = map (\<lambda>(k, row). (fst k, arange (length (columns data)), row))
                              (zip (index data) (cells data)),
                   xlabel = ''Year'', ylabel = ''Indicator Value'',
                   title = join '', '' indicators\<rparr>"
  using assms
  by (auto simp add: predict_future_def split: sum.splits)

lemma predict_future_ignores_fit:
  assumes "predict_future read_csv to_num cf tppf filename countries indicators
             start_year end_year = Inr fig"
    and "predict_future read_csv to_num cf' tppf' filename countries indicators
             start_year end_year = Inr fig'"
  shows "fig = fig'"
  using predict_future_figure [OF assms(1)] predict_future_figure [OF assms(2)]
  by auto

text \<open>
  C2. On the small file predict_future fits India's row and fills growth_rate with the
  fitted rate \<open>b\<close>, but what it produces, the figure, holds only the raw series: the
  figure is the same for a fit with rate 1/2 and for a fit with rate 3. The function
  returns nothing, so \<open>b\<close> reaches neither the caller nor the figure.
\<close>

theorem predict_future_drops_growth_rate:
  "growth_rate_loop (demo_curve_fit (1 / 2)) demo_tppf 2 [[Some 10, Some 20]]
     = Inr [[1 / 2, 1 / 2]]
   \<and> predict_future demo_read_csv demo_to_num (demo_curve_fit (1 / 2)) demo_tppf
       ''WorldBank.csv'' [''India''] [''Cereal yield''] 1991 1992
     = Inr \<lparr>lines = [(''India'', [0, 1], [Some 10, Some 20])],
            xlabel = ''Year'', ylabel = ''Indicator Value'', title = ''Cereal yield''\<rparr>
   \<and> predict_future demo_read_csv demo_to_num (demo_curve_fit 3) demo_tppf
       ''WorldBank.csv'' [''India''] [''Cereal yield''] 1991 1992
     = Inr \<lparr>lines = [(''India'', [0, 1], [Some 10, Some 20])],
            xlabel = ''Year'', ylabel = ''Indicator Value'', title = ''Cereal yield''\<rparr>"
  by (simp add: predict_future_def filter_Cereal_yield_data_def loader_defs demo_curve_fit_def
      err_ranges_def arange_def numeral_2_eq_2)

subsection \<open>Absent keys\<close>

lemma subset_data_KeyError_country:
  assumes "c \<in> set countries" and "c \<notin> set (map fst (index df_years))"
  shows "subset_data df_years countries indicators = Inl KeyError"
  using assms by (auto simp add: subset_data_def loc_rows_columns_def Let_def list_all_iff)

lemma subset_data_KeyError_indicator:
  assumes "n \<in> set indicators" and "n \<notin> set (map snd (index df_years))"
  shows "subset_data df_years countries indicators = Inl KeyError"
  using assms by (auto simp add: subset_data_def loc_rows_columns_def Let_def list_all_iff)

lemma isin_present:
  "cell \<in> set col \<Longrightarrow> isin cell (filter (\<lambda>l. Some l \<in> set col) labels) = isin cell labels"
  by (cases cell) (auto simp add: isin_def)

lemma filter_isin_present:
  assumes cs: "map_of df ''Country'' = Some cs"
    and ns: "map_of df ''Indicator Name'' = Some ns"
  shows "filter_isin df countries indicators
       = filter_isin df (filter (\<lambda>c. Some c \<in> set cs) countries)
           (filter (\<lambda>n. Some n \<in> set ns) indicators)"
proof -
  have meq: "map (\<lambda>(x, m). isin x countries \<and> isin m indicators) (zip cs ns)
      = map (\<lambda>(x, m). isin x (filter (\<lambda>c. Some c \<in> set cs) countries)
                     \<and> isin m (filter (\<lambda>n. Some n \<in> set ns) indicators)) (zip cs ns)"
  proof (rule map_cong [OF refl])
    fix p
    assume p: "p \<in> set (zip cs ns)"
    then have "fst p \<in> set cs" and "snd p \<in> set ns"
      by (metis prod.collapse set_zip_leftD, metis prod.collapse set_zip_rightD)
    then show "(case p of (x, m) \<Rightarrow> isin x countries \<and> isin m indicators)
        = (case p of (x, m) \<Rightarrow> isin x (filter (\<lambda>c. Some c \<in> set cs) countries)
                               \<and> isin m (filter (\<lambda>n. Some n \<in> set ns) indicators))"
      by (cases p) (simp add: isin_present)
  qed
  show ?thesis
    unfolding filter_isin_def cs ns by (simp only: prod.case option.case Let_def meq)
qed

lemma filter_Cereal_yield_data_present:
  assumes rd: "read_csv filename = Inr csv"
    and cs: "map_of (loaded csv) ''Country'' = Some cs"
    and ns: "map_of (loaded csv) ''Indicator Name'' = Some ns"
  shows "filter_Cereal_yield_data read_csv to_num filename countries indicators s e
       = filter_Cereal_yield_data read_csv to_num filename
           (filter (\<lambda>c. Some c \<in> set cs) countries)
           (filter (\<lambda>n. Some n \<in> set ns) indicators) s e"
proof (cases "drop_columns csv [''Country Code'', ''Indicator Code'', ''Unnamed: 66'']")
  case (Inl err)
  with rd show ?thesis
    by (simp add: filter_Cereal_yield_data_def)
next
  case (Inr df1)
  then have "df1 = filter (\<lambda>col. fst col
      \<notin> set [''Country Code'', ''Indicator Code'', ''Unnamed: 66'']) csv"
    by (auto simp add: drop_columns_def split: if_splits)
  then have df1: "rename_column df1 ''Country Name'' ''Country'' = loaded csv"
    by (simp add: loaded_def)
  have "filter_isin (loaded csv) countries indicators
      = filter_isin (loaded csv) (filter (\<lambda>c. Some c \<in> set cs) countries)
          (filter (\<lambda>n. Some n \<in> set ns) indicators)"
    using cs ns by (rule filter_isin_present)
  with rd Inr df1 show ?thesis
    by (simp add: filter_Cereal_yield_data_def)
qed

text \<open>
  C6, as amended. subset_data, which looks its keys up by label, fails with a KeyError
  when a requested country or a requested indicator labels no row of the table.
  filter_Cereal_yield_data, which selects rows with an \<^verbatim>\<open>isin\<close> mask, returns for
  any request what it returns for the request restricted to the countries that occur in
  the file's Country column and the indicators that occur in its Indicator Name column:
  a requested key that is absent, wherever it stands in the request, changes nothing, so
  the other keys' rows are returned.
\<close>

theorem absent_key_subsetting:
  "(c \<in> set countries \<and> c \<notin> set (map fst (index df_years))
      \<longrightarrow> subset_data df_years countries indicators = Inl KeyError)
   \<and> (n \<in> set indicators \<and> n \<notin> set (map snd (index df_years))
      \<longrightarrow> subset_data df_years countries indicators = Inl KeyError)
   \<and> (read_csv filename = Inr csv \<and> map_of (loaded csv) ''Country'' = Some cs
        \<and> map_of (loaded csv) ''Indicator Name'' = Some ns
      \<longrightarrow> filter_Cereal_yield_data read_csv to_num filename countries' indicators' s e
            = filter_Cereal_yield_data read_csv to_num filename
                (filter (\<lambda>c. Some c \<in> set cs) countries')
                (filter (\<lambda>n. Some n \<in> set ns) indicators') s e)"
proof (intro conjI impI)
  assume "c \<in> set countries \<and> c \<notin> set (map fst (index df_years))"
  then show "subset_data df_years countries indicators = Inl KeyError"
    using subset_data_KeyError_country by blast
next
  assume "n \<in> set indicators \<and> n \<notin> set (map snd (index df_years))"
  then show "subset_data df_years countries indicators = Inl KeyError"
    using subset_data_KeyError_indicator by blast
next
  assume "read_csv filename = Inr csv \<and> map_of (loaded csv) ''Country'' = Some cs
      \<and> map_of (loaded csv) ''Indicator Name'' = Some ns"
  then show "filter_Cereal_yield_data read_csv to_num filename countries' indicators' s e
      = filter_Cereal_yield_data read_csv to_num filename
          (filter (\<lambda>c. Some c \<in> set cs) countries')
          (filter (\<lambda>n. Some n \<in> set ns) indicators') s e"
    using filter_Cereal_yield_data_present by blast
qed

theorem absent_key_subsetting_witness:
  "subset_data scenario_table [''India'', ''Atlantis''] [''Population, total''] = Inl KeyError
   \<and> subset_data scenario_table [''India''] [''Population, total'', ''Rainfall''] = Inl KeyError
   \<and> demo_read_csv ''WorldBank.csv'' = Inr demo_csv
   \<and> map_of (loaded demo_csv) ''Country'' = Some [Some ''India'', Some ''China'']
   \<and> map_of (loaded demo_csv) ''Indicator Name'' = Some [Some ''Cereal yield'', Some ''Cereal yield'']
   \<and> filter_Cereal_yield_data demo_read_csv demo_to_num ''WorldBank.csv''
        [''India'', ''Atlantis'', ''IND''] [''Rainfall'', ''Cereal yield'', ''AG.YLD''] 1991 1992
      = filter_Cereal_yield_data demo_read_csv demo_to_num ''WorldBank.csv''
          [''India''] [''Cereal yield''] 1991 1992"
  using absent_key_subsetting [of "''Atlantis''" "[''India'', ''Atlantis'']" scenario_table
      "[''Population, total'']" "''Population, total''" demo_read_csv "''WorldBank.csv''" demo_csv
      "[Some ''India'', Some ''China'']" "[Some ''Cereal yield'', Some ''Cereal yield'']"
      demo_to_num "[''India'', ''Atlantis'', ''IND'']" "[''Rainfall'', ''Cereal yield'', ''AG.YLD'']"
      1991 1992]
    absent_key_subsetting [of "''India''" "[''India'']" scenario_table
      "[''Population, total'', ''Rainfall'']" "''Rainfall''" demo_read_csv "''WorldBank.csv''"
      demo_csv "[Some ''India'', Some ''China'']" "[Some ''Cereal yield'', Some ''Cereal yield'']"
      demo_to_num "[''India'', ''Atlantis'', ''IND'']" "[''Rainfall'', ''Cereal yield'', ''AG.YLD'']"
      1991 1992]
  by (simp add: scenario_index demo_read_csv_def demo_csv_def loaded_def rename_column_def)

text \<open>
  The claim as stated fails on the small file: Atlantis is in no cell of it, and the
  request for India and Atlantis returns India's row.
\<close>

theorem absent_key_subsetting_counterexample:
  "list_all (\<lambda>col. Some ''Atlantis'' \<notin> set (snd col)) demo_csv
   \<and> filter_Cereal_yield_data demo_read_csv demo_to_num ''WorldBank.csv''
        [''India'', ''Atlantis''] [''Cereal yield''] 1991 1992
      = Inr \<lparr>index = [(''India'', ''Cereal yield'')], columns = [1991, 1992],
             cells = [[Some 10, Some 20]]\<rparr>"
  by (simp add: filter_Cereal_yield_data_def loader_defs)

subsection \<open>Loader\<close>

lemma dropna_no_empty_column: "no_empty_column (dropna_all_columns df)"
proof -
  let ?keep = "filter (\<lambda>j. list_ex (\<lambda>row. row ! j \<noteq> None) (cells df)) [0..<length (columns df)]"
  have "list_ex (\<lambda>row. row ! j \<noteq> None) (map (\<lambda>row. map (\<lambda>j. row ! j) ?keep) (cells df))"
    if j: "j < length ?keep" for j
  proof -
    from j have "?keep ! j \<in> set ?keep"
      by (rule nth_mem)
    then have "list_ex (\<lambda>row. row ! (?keep ! j) \<noteq> None) (cells df)"
      by simp
    then obtain row where "row \<in> set (cells df)" "row ! (?keep ! j) \<noteq> None"
      by (auto simp add: list_ex_iff)
    with j show ?thesis
      by (auto simp add: list_ex_iff simp del: set_filter)
  qed
  then show ?thesis
    by (simp add: no_empty_column_def dropna_all_columns_def Let_def list_all_iff)
qed

lemma dropna_index: "index (dropna_all_columns df) = index df"
  by (simp add: dropna_all_columns_def Let_def)

lemma dropna_columns_length: "length (columns (dropna_all_columns df)) \<le> length (columns df)"
proof -
  have "length (filter (\<lambda>j. list_ex (\<lambda>row. row ! j \<noteq> None) (cells df)) [0..<length (columns df)])
      \<le> length [0..<length (columns df)]"
    by (rule length_filter_le)
  then show ?thesis
    by (simp add: dropna_all_columns_def Let_def)
qed

lemma valid_mem:
  "(r, c, v) \<in> set (List.map_filter
        (\<lambda>a. case (rk a, ck a, val a) of
                (Some r, Some c, Some v) \<Rightarrow> Some (r, c, v)
              | _ \<Rightarrow> None) rows)
     \<longleftrightarrow> (\<exists>a \<in> set rows. rk a = Some r \<and> ck a = Some c \<and> val a = Some v)"
  by (induction rows) (auto simp add: List.map_filter_simps split: option.splits)

lemma pivot_index_set:
  "set (index (pivot_table rk ck val rows))
     = {r. \<exists>a \<in> set rows. \<exists>c v. rk a = Some r \<and> ck a = Some c \<and> val a = Some v}"
proof -
  let ?valid = "List.map_filter
        (\<lambda>a. case (rk a, ck a, val a) of
                (Some r, Some c, Some v) \<Rightarrow> Some (r, c, v)
              | _ \<Rightarrow> None) rows"
  have "set (index (pivot_table rk ck val rows)) = fst ` set ?valid"
    by (simp add: pivot_table_def Let_def)
  also have "\<dots> = {r. \<exists>c v. (r, c, v) \<in> set ?valid}"
    by force
  also have "\<dots> = {r. \<exists>a \<in> set rows. \<exists>c v. rk a = Some r \<and> ck a = Some c \<and> val a = Some v}"
    unfolding valid_mem by blast
  finally show ?thesis .
qed

lemma pivot_columns_set:
  "set (columns (pivot_table rk ck val rows)) \<subseteq> {c. \<exists>a \<in> set rows. ck a = Some c}"
proof -
  let ?valid = "List.map_filter
        (\<lambda>a. case (rk a, ck a, val a) of
                (Some r, Some c, Some v) \<Rightarrow> Some (r, c, v)
              | _ \<Rightarrow> None) rows"
  have "set (columns (pivot_table rk ck val rows)) = (\<lambda>t. fst (snd t)) ` set ?valid"
    by (simp add: pivot_table_def Let_def)
  also have "\<dots> = {c. \<exists>r v. (r, c, v) \<in> set ?valid}"
    by force
  also have "\<dots> \<subseteq> {c. \<exists>a \<in> set rows. ck a = Some c}"
    unfolding valid_mem by blast
  finally show ?thesis .
qed

lemma pivot_columns_length:
  "length (columns (pivot_table rk ck val rows)) = card (set (columns (pivot_table rk ck val rows)))"
  by (simp add: pivot_table_def Let_def length_remdups_card_conv)

lemma zip3_mem:
  "(c, n, v) \<in> set (zip cs (zip ns vs))
     \<longleftrightarrow> (\<exists>k. k < length cs \<and> k < length ns \<and> k < length vs
              \<and> cs ! k = c \<and> ns ! k = n \<and> vs ! k = v)"
  by (auto simp add: set_zip)

lemma long_rows_mem:
  "(c, n, y, v) \<in> set (to_numeric_value to_num (to_numeric_year to_num
       (concat (map (\<lambda>col. map (\<lambda>(c, n, v). (c, n, fst col, v)) (zip cs (zip ns (snd col))))
                  cols))))
     \<longleftrightarrow> (\<exists>col \<in> set cols. \<exists>k. k < length cs \<and> k < length ns \<and> k < length (snd col)
            \<and> c = cs ! k \<and> n = ns ! k \<and> y = to_num (fst col)
            \<and> v = (case snd col ! k of None \<Rightarrow> None | Some s \<Rightarrow> to_num s))"
  by (auto simp add: to_numeric_value_def to_numeric_year_def set_zip image_iff) force+

lemma file_read_Inr:
  assumes "file_read read_csv to_num filename = Inr (dy, dc)"
  shows "\<exists>csv cs ns. read_csv filename = Inr csv
           \<and> map_of (loaded csv) ''Country'' = Some cs
           \<and> map_of (loaded csv) ''Indicator Name'' = Some ns
           \<and> dy = dropna_all_columns
                  (pivot_table country_indicator_key (\<lambda>(c, n, y, v). y) (\<lambda>(c, n, y, v). v)
                     (to_numeric_value to_num (to_numeric_year to_num
                        (concat (map (\<lambda>col. map (\<lambda>(c, n, v). (c, n, fst col, v))
                                               (zip cs (zip ns (snd col))))
                                   (year_columns csv))))))
           \<and> dc = dropna_all_columns
                  (pivot_table year_indicator_key (\<lambda>(c, n, y, v). c) (\<lambda>(c, n, y, v). v)
                     (to_numeric_value to_num (to_numeric_year to_num
                        (concat (map (\<lambda>col. map (\<lambda>(c, n, v). (c, n, fst col, v))
                                               (zip cs (zip ns (snd col))))
                                   (year_columns csv))))))"
  using assms
  by (auto simp add: file_read_def drop_columns_def melt_def loaded_def year_columns_def Let_def
      split: sum.splits option.splits if_splits)

lemma pivot_distinct_index: "distinct (index (pivot_table rk ck val rows))"
  by (simp add: pivot_table_def Let_def)

lemma years_columns_bound:
  "length (columns (pivot_table rk (\<lambda>(c, n, y, v). y) val
       (to_numeric_value to_num (to_numeric_year to_num
          (concat (map (\<lambda>col. map (\<lambda>(c, n, v). (c, n, fst col, v)) (zip cs (zip ns (snd col))))
                     cols))))))
     \<le> length cols"
proof -
  let ?df = "to_numeric_value to_num (to_numeric_year to_num
          (concat (map (\<lambda>col. map (\<lambda>(c, n, v). (c, n, fst col, v)) (zip cs (zip ns (snd col))))
                     cols)))"
  let ?P = "pivot_table rk (\<lambda>(c, n, y, v). y) val ?df"
  have "set (columns ?P) \<subseteq> {y. \<exists>a \<in> set ?df. (\<lambda>(c, n, y, v). y) a = Some y}"
    by (rule pivot_columns_set)
  also have "\<dots> \<subseteq> (\<lambda>col. the (to_num (fst col))) ` set cols"
  proof
    fix y
    assume "y \<in> {y. \<exists>a \<in> set ?df. (\<lambda>(c, n, y, v). y) a = Some y}"
    then obtain c n v where "(c, n, Some y, v) \<in> set ?df"
      by auto
    then obtain col where "col \<in> set cols" "Some y = to_num (fst col)"
      unfolding long_rows_mem by blast
    then show "y \<in> (\<lambda>col. the (to_num (fst col))) ` set cols"
      by (metis image_eqI option.sel)
  qed
  finally have "card (set (columns ?P)) \<le> card ((\<lambda>col. the (to_num (fst col))) ` set cols)"
    by (simp add: card_mono)
  also have "\<dots> \<le> card (set cols)"
    by (simp add: card_image_le)
  also have "\<dots> \<le> length cols"
    by (rule card_length)
  finally show ?thesis
    by (simp only: pivot_columns_length)
qed

lemma numeric_cell_Some:
  "Some v = (case cell of None \<Rightarrow> None | Some s \<Rightarrow> to_num s) \<Longrightarrow> numeric_cell to_num cell"
  by (cases cell) (auto simp add: numeric_cell_def dest: sym)

lemma numeric_cell_value:
  assumes "numeric_cell to_num cell"
  obtains v where "Some v = (case cell of None \<Rightarrow> None | Some s \<Rightarrow> to_num s)"
  using assms by (cases cell) (auto simp add: numeric_cell_def)

lemma years_index_set:
  "set (index (pivot_table country_indicator_key (\<lambda>(c, n, y, v). y) (\<lambda>(c, n, y, v). v)
       (to_numeric_value to_num (to_numeric_year to_num
          (concat (map (\<lambda>col. map (\<lambda>(c, n, v). (c, n, fst col, v)) (zip cs (zip ns (snd col))))
                     cols))))))
     = {(c, n). \<exists>k. k < length cs \<and> k < length ns \<and> cs ! k = Some c \<and> ns ! k = Some n
          \<and> list_ex (\<lambda>col. to_num (fst col) \<noteq> None \<and> k < length (snd col)
                             \<and> numeric_cell to_num (snd col ! k)) cols}"
  (is "set (index (pivot_table _ _ _ ?df)) = ?R")
proof -
  have "set (index (pivot_table country_indicator_key (\<lambda>(c, n, y, v). y) (\<lambda>(c, n, y, v). v) ?df))
      = {r. \<exists>a \<in> set ?df. \<exists>y v. country_indicator_key a = Some r
              \<and> (\<lambda>(c, n, y, v). y) a = Some y \<and> (\<lambda>(c, n, y, v). v) a = Some v}"
    by (rule pivot_index_set)
  also have "\<dots> = {(c, n). \<exists>y v. (Some c, Some n, Some y, Some v) \<in> set ?df}"
    (is "?A = ?B")
  proof (intro set_eqI iffI)
    fix r
    assume "r \<in> ?A"
    then obtain a y v where a: "a \<in> set ?df" "country_indicator_key a = Some r"
        "(\<lambda>(c, n, y, v). y) a = Some y" "(\<lambda>(c, n, y, v). v) a = Some v"
      by blast
    obtain c0 n0 y0 v0 where "a = (c0, n0, y0, v0)"
      by (cases a)
    with a(2-4) have "a = (Some (fst r), Some (snd r), Some y, Some v)"
      by (auto simp add: country_indicator_key_def split: option.splits)
    with a(1) show "r \<in> ?B"
      by (cases r) auto
  next
    fix r
    assume "r \<in> ?B"
    then obtain c n y v where r: "r = (c, n)" and m: "(Some c, Some n, Some y, Some v) \<in> set ?df"
      by auto
    have "country_indicator_key (Some c, Some n, Some y, Some v) = Some r"
      by (simp add: country_indicator_key_def r)
    with m show "r \<in> ?A"
      by force
  qed
  also have "\<dots> = ?R"
    (is "?B = _")
  proof (intro set_eqI iffI)
    fix r
    assume "r \<in> ?B"
    then obtain c n y v where r: "r = (c, n)" and m: "(Some c, Some n, Some y, Some v) \<in> set ?df"
      by auto
    from m obtain col k where col: "col \<in> set cols" and k: "k < length cs" "k < length ns"
        "k < length (snd col)" and ck: "Some c = cs ! k" "Some n = ns ! k"
      and y: "Some y = to_num (fst col)"
      and v: "Some v = (case snd col ! k of None \<Rightarrow> None | Some s \<Rightarrow> to_num s)"
      unfolding long_rows_mem by blast
    from v have "numeric_cell to_num (snd col ! k)"
      by (rule numeric_cell_Some)
    with col k(3) y have "list_ex (\<lambda>col. to_num (fst col) \<noteq> None \<and> k < length (snd col)
                             \<and> numeric_cell to_num (snd col ! k)) cols"
      unfolding list_ex_iff by (metis option.distinct(1))
    with k(1,2) ck show "r \<in> ?R"
      unfolding r by auto
  next
    fix r
    assume "r \<in> ?R"
    then obtain c n k where r: "r = (c, n)" and k: "k < length cs" "k < length ns"
      and ck: "cs ! k = Some c" "ns ! k = Some n"
      and ex: "list_ex (\<lambda>col. to_num (fst col) \<noteq> None \<and> k < length (snd col)
                             \<and> numeric_cell to_num (snd col ! k)) cols"
      by auto
    from ex obtain col where col: "col \<in> set cols" and y: "to_num (fst col) \<noteq> None"
      and kl: "k < length (snd col)" and nc: "numeric_cell to_num (snd col ! k)"
      unfolding list_ex_iff by blast
    from y obtain y' where y': "Some y' = to_num (fst col)"
      by (metis not_None_eq)
    from nc obtain v where v: "Some v = (case snd col ! k of None \<Rightarrow> None | Some s \<Rightarrow> to_num s)"
      by (rule numeric_cell_value)
    from col k kl ck y' v have "(Some c, Some n, Some y', Some v) \<in> set ?df"
      unfolding long_rows_mem by (metis (no_types))
    then show "r \<in> ?B"
      unfolding r by blast
  qed
  finally show ?thesis .
qed

text \<open>
  C7. When file_read returns, neither pivoted view has a column that is entirely missing.
  The table with one row per (country, indicator) has at most as many columns as the file
  has year columns, and its rows, each once, are exactly the (country, indicator) pairs
  of the file's rows that are not entirely missing, that is, that hold a number under
  some year.
\<close>

theorem file_read_postcondition:
  assumes "file_read read_csv to_num filename = Inr (df_years, df_countries)"
  shows "\<exists>csv cs ns. read_csv filename = Inr csv
           \<and> map_of (loaded csv) ''Country'' = Some cs
           \<and> map_of (loaded csv) ''Indicator Name'' = Some ns
           \<and> no_empty_column df_years \<and> no_empty_column df_countries
           \<and> length (columns df_years) \<le> length (year_columns csv)
           \<and> distinct (index df_years)
           \<and> set (index df_years)
               = {(c, n). \<exists>k. k < length cs \<and> k < length ns \<and> cs ! k = Some c \<and> ns ! k = Some n
                    \<and> has_value to_num csv k}"
proof -
  from file_read_Inr [OF assms] obtain csv cs ns where csv: "read_csv filename = Inr csv"
    and cs: "map_of (loaded csv) ''Country'' = Some cs"
    and ns: "map_of (loaded csv) ''Indicator Name'' = Some ns"
    and dy: "df_years = dropna_all_columns
                  (pivot_table country_indicator_key (\<lambda>(c, n, y, v). y) (\<lambda>(c, n, y, v). v)
                     (to_numeric_value to_num (to_numeric_year to_num
                        (concat (map (\<lambda>col. map (\<lambda>(c, n, v). (c, n, fst col, v))
                                               (zip cs (zip ns (snd col))))
                                   (year_columns csv))))))"
    and dc: "df_countries = dropna_all_columns
                  (pivot_table year_indicator_key (\<lambda>(c, n, y, v). c) (\<lambda>(c, n, y, v). v)
                     (to_numeric_value to_num (to_numeric_year to_num
                        (concat (map (\<lambda>col. map (\<lambda>(c, n, v). (c, n, fst col, v))
                                               (zip cs (zip ns (snd col))))
                                   (year_columns csv))))))"
    by blast
  have e1: "no_empty_column df_years" and e2: "no_empty_column df_countries"
    unfolding dy dc by (rule dropna_no_empty_column)+
  have len: "length (columns df_years) \<le> length (year_columns csv)"
    unfolding dy
    by (rule order_trans [OF dropna_columns_length years_columns_bound])
  have dist: "distinct (index df_years)"
    unfolding dy dropna_index by (rule pivot_distinct_index)
  have idx: "set (index df_years)
      = {(c, n). \<exists>k. k < length cs \<and> k < length ns \<and> cs ! k = Some c \<and> ns ! k = Some n
           \<and> has_value to_num csv k}"
    unfolding dy dropna_index years_index_set has_value_def ..
  from csv cs ns e1 e2 len dist idx show ?thesis
    by blast
qed

theorem file_read_postcondition_witness:
  "file_read demo_read_csv demo_to_num ''WorldBank.csv''
     = Inr (\<lparr>index = [(''China'', ''Cereal yield''), (''India'', ''Cereal yield'')],
              columns = [1991, 1992], cells = [[Some 30, Some 40], [Some 10, Some 20]]\<rparr>,
            \<lparr>index = [(1991, ''Cereal yield''), (1992, ''Cereal yield'')],
              columns = [''China'', ''India''], cells = [[Some 30, Some 10], [Some 40, Some 20]]\<rparr>)
   \<and> (\<exists>csv cs ns. demo_read_csv ''WorldBank.csv'' = Inr csv
           \<and> map_of (loaded csv) ''Country'' = Some cs
           \<and> map_of (loaded csv) ''Indicator Name'' = Some ns
           \<and> no_empty_column \<lparr>index = [(''China'', ''Cereal yield''), (''India'', ''Cereal yield'')],
                  columns = [1991, 1992 :: real],
                  cells = [[Some 30, Some 40], [Some 10, Some 20]]\<rparr>
           \<and> no_empty_column \<lparr>index = [(1991 :: real, ''Cereal yield''), (1992, ''Cereal yield'')],
                  columns = [''China'', ''India''],
                  cells = [[Some 30, Some 10], [Some 40, Some 20]]\<rparr>
           \<and> length [1991, 1992 :: real] \<le> length (year_columns csv)
           \<and> set [(''China'', ''Cereal yield''), (''India'', ''Cereal yield'')]
               = {(c, n). \<exists>k. k < length cs \<and> k < length ns \<and> cs ! k = Some c \<and> ns ! k = Some n
                    \<and> has_value demo_to_num csv k})"
proof -
  have ev: "file_read demo_read_csv demo_to_num ''WorldBank.csv''
     = Inr (\<lparr>index = [(''China'', ''Cereal yield''), (''India'', ''Cereal yield'')],
              columns = [1991, 1992], cells = [[Some 30, Some 40], [Some 10, Some 20]]\<rparr>,
            \<lparr>index = [(1991, ''Cereal yield''), (1992, ''Cereal yield'')],
              columns = [''China'', ''India''], cells = [[Some 30, Some 10], [Some 40, Some 20]]\<rparr>)"
    by (simp add: file_read_def loader_defs)
  from file_read_postcondition [OF ev] obtain csv cs ns where
    "demo_read_csv ''WorldBank.csv'' = Inr csv"
    "map_of (loaded csv) ''Country'' = Some cs"
    "map_of (loaded csv) ''Indicator Name'' = Some ns"
    "no_empty_column \<lparr>index = [(''China'', ''Cereal yield''), (''India'', ''Cereal yield'')],
                  columns = [1991, 1992 :: real],
                  cells = [[Some 30, Some 40], [Some 10, Some 20]]\<rparr>"
    "no_empty_column \<lparr>index = [(1991 :: real, ''Cereal yield''), (1992, ''Cereal yield'')],
                  columns = [''China'', ''India''],
                  cells = [[Some 30, Some 10], [Some 40, Some 20]]\<rparr>"
    "length [1991, 1992 :: real] \<le> length (year_columns csv)"
    "set [(''China'', ''Cereal yield''), (''India'', ''Cereal yield'')]
               = {(c, n). \<exists>k. k < length cs \<and> k < length ns \<and> cs ! k = Some c \<and> ns ! k = Some n
                    \<and> has_value demo_to_num csv k}"
    unfolding frame.simps by blast
  with ev show ?thesis
    by blast
qed

end
